theory Spec2Isabelle
  imports Complex_Main "HOL-Library.Word"
begin

section \<open>Typed arrays\<close>

text \<open>
  A \<open>Float32Array\<close> is a list of its elements.  Only the element type's operations that a
  function really uses are required of it (\<open>zero\<close> for a freshly allocated array, which
  JavaScript fills with zeros), so every statement below holds for whatever arithmetic the
  elements carry.  A write outside the array is ignored by JavaScript, exactly as
  \<open>xs[i := v]\<close> does nothing for \<open>i \<ge> length xs\<close>.  A read outside the array yields
  \<open>undefined\<close> in JavaScript; \<open>xs ! i\<close> is unspecified there, and the statements about
  element values are made for buffers that have the length their shape declares, where no
  such read happens.
\<close>

text \<open>
  \<open>TypedArray.prototype.slice(start, end)\<close> for non-negative integer arguments: both bounds
  are clamped to the length, and the number of copied elements is \<open>max (final - k) 0\<close>
  (the truncating subtraction of \<open>nat\<close>).
\<close>

definition f32_slice :: "'a list \<Rightarrow> nat \<Rightarrow> nat \<Rightarrow> 'a list" where
  "f32_slice xs start end =
     (let len = length xs;
          k = min start len;
          final = min end len
      in take (final - k) (drop k xs))"

section \<open>Image utilities (core/imageutils)\<close>

text \<open>
  \<open>sliceTensor\<close>: the array destructuring \<open>const [, , width, height] = dims\<close> reads
  \<open>dims[2]\<close> and \<open>dims[3]\<close>.  With fewer than four entries one of them is \<open>undefined\<close>,
  \<open>stride\<close>, \<open>start\<close> and \<open>end\<close> are \<open>NaN\<close>, and \<open>slice\<close> reads \<open>NaN\<close> as \<open>0\<close>: the
  result is the empty array.
\<close>

fun sliceTensor :: "'a list \<Rightarrow> nat list \<Rightarrow> nat \<Rightarrow> 'a list" where
  "sliceTensor data (b # m # width # height # rest) maskIndex =
     (let stride = width * height;
          start = stride * maskIndex;
          end = start + stride
      in f32_slice data start end)"
| "sliceTensor data dims maskIndex = []"

section \<open>Worker (core/worker)\<close>

text \<open>
  \<open>chwToHwc\<close>: three nested counting loops over \<open>h\<close>, \<open>w\<close> and \<open>c\<close>, each iteration one
  store into the zero-filled \<open>hwcArray\<close>.
\<close>

definition chwToHwc :: "'a::zero list \<Rightarrow> nat \<Rightarrow> nat \<Rightarrow> nat \<Rightarrow> 'a list" where
  "chwToHwc chwArray channels height width =
     (let hwcArray = replicate (length chwArray) 0;
          channelSize = height * width
      in fold (\<lambda>h. fold (\<lambda>w. fold (\<lambda>c hwcArray.
            let chwIdx = c * channelSize + h * width + w;
                hwcIdx = h * width * channels + w * channels + c
            in hwcArray[hwcIdx := chwArray ! chwIdx])
          [0..<channels]) [0..<width]) [0..<height] hwcArray)"

text \<open>
  Modelled from the spec: the reverse transposition from \<open>[H,W,C]\<close> to \<open>[C,H,W]\<close>
  order (\<open>toCHW\<close>), which the repository does not implement.  It is \<open>chwToHwc\<close> with the
  two index computations exchanged.
\<close>

definition hwcToChw :: "'a::zero list \<Rightarrow> nat \<Rightarrow> nat \<Rightarrow> nat \<Rightarrow> 'a list" where
  "hwcToChw hwcArray channels height width =
     (let chwArray = replicate (length hwcArray) 0;
          channelSize = height * width
      in fold (\<lambda>h. fold (\<lambda>w. fold (\<lambda>c chwArray.
            let chwIdx = c * channelSize + h * width + w;
                hwcIdx = h * width * channels + w * channels + c
            in chwArray[chwIdx := hwcArray ! hwcIdx])
          [0..<channels]) [0..<width]) [0..<height] chwArray)"


section \<open>Errors and canvases\<close>

text \<open>
  A thrown JavaScript value: an \<open>Error\<close> with its message, a \<open>TypeError\<close> raised by the
  language itself, or a \<open>DOMException\<close> of the platform with its name.  A function that can
  throw returns \<open>exn + 'a\<close>, the thrown value on the left.
\<close>

datatype exn = Error string | TypeError | DOMException string

text \<open>
  What the image utilities use of a canvas: its size, whether \<open>getContext('2d')\<close> yields a
  context, and the RGBA bytes (a \<open>Uint8ClampedArray\<close>, four bytes per pixel, row by row)
  that \<open>getImageData(0, 0, width, height).data\<close> reads from it.
\<close>

record canvas =
  cwidth :: nat
  cheight :: nat
  context2d :: bool
  rgba :: "8 word list"

record tensor =
  tensor_float32Array :: "real list"
  tensor_shape :: "nat list"

definition get2DContext :: "canvas \<Rightarrow> exn + canvas" where
  "get2DContext cv =
     (if \<not> context2d cv then Inl (Error ''Failed to get 2D context'') else Inr cv)"

text \<open>
  \<open>getImageData(0, 0, sw, sh)\<close> throws an \<open>IndexSizeError\<close> when \<open>sw\<close> or \<open>sh\<close> is zero.
\<close>

definition getImageData :: "canvas \<Rightarrow> exn + 8 word list" where
  "getImageData cv =
     (if cwidth cv = 0 \<or> cheight cv = 0 then Inl (DOMException ''IndexSizeError'')
      else Inr (rgba cv))"

text \<open>
  \<open>canvasToFloat32Array\<close>.  Numbers are real numbers here: the quotient \<open>byte / 255.0\<close> is
  the exact one, and the rounding of the store into the \<open>Float32Array\<close> is left out.
  \<open>populate\<close> is the function's loop over the pixels, three stores per pixel.
\<close>

definition populate :: "8 word list \<Rightarrow> nat \<Rightarrow> real list \<Rightarrow> real list" where
  "populate imageData channelSize buffer =
     fold (\<lambda>i float32Array.
             let idx = i * 4
             in float32Array
                  [i := real (unat (imageData ! idx)) / 255,
                   i + channelSize := real (unat (imageData ! (idx + 1))) / 255,
                   i + 2 * channelSize := real (unat (imageData ! (idx + 2))) / 255])
          [0..<channelSize] buffer"

definition canvasToFloat32Array :: "canvas \<Rightarrow> exn + tensor" where
  "canvasToFloat32Array cv =
     (case get2DContext cv of Inl e \<Rightarrow> Inl e | Inr ctx \<Rightarrow>
      case getImageData ctx of Inl e \<Rightarrow> Inl e | Inr imageData \<Rightarrow>
        let width = cwidth cv; height = cheight cv;
            shape = [1, 3, height, width];
            channelSize = height * width;
            float32Array = replicate (3 * channelSize) 0
        in Inr \<lparr>tensor_float32Array = populate imageData channelSize float32Array,
               tensor_shape = shape\<rparr>)"

text \<open>
  \<open>findMaskBounds\<close>.  Coordinates and sizes are natural numbers.  The optional parameter
  \<open>threshold = 0\<close> is an \<open>option\<close>: \<open>None\<close> when the caller leaves it out.  The test
  \<open>data[idx] > threshold\<close> is false for an index outside the buffer (\<open>undefined\<close> compares
  false with every number).  The subtractions \<open>maxX - minX\<close> and \<open>maxY - minY\<close> are only
  reached with \<open>minX \<le> maxX\<close> and \<open>minY \<le> maxY\<close>.
\<close>

record BoundingBox =
  box_x :: nat
  box_y :: nat
  box_width :: nat
  box_height :: nat

definition findMaskBounds :: "'a::{ord,zero} list \<Rightarrow> nat \<Rightarrow> nat \<Rightarrow> 'a option \<Rightarrow> BoundingBox" where
  "findMaskBounds data width height threshold_arg =
     (let threshold = (case threshold_arg of None \<Rightarrow> 0 | Some t \<Rightarrow> t);
          (minX, minY, maxX, maxY) =
            fold (\<lambda>y. fold (\<lambda>x (minX, minY, maxX, maxY).
                    let idx = y * width + x
                    in if idx < length data \<and> data ! idx > threshold
                       then (min minX x, min minY y, max maxX x, max maxY y)
                       else (minX, minY, maxX, maxY))
                  [0..<width]) [0..<height] (width, height, 0, 0)
      in if minX > maxX \<or> minY > maxY
         then \<lparr>box_x = 0, box_y = 0, box_width = 0, box_height = 0\<rparr>
         else \<lparr>box_x = minX, box_y = minY,
               box_width = maxX - minX + 1, box_height = maxY - minY + 1\<rparr>)"

text \<open>
  \<open>resizeAndPadBox\<close>.  A \<open>Size\<close> holds pixel counts (the sizes of canvases and the
  \<open>imageSize\<close> and \<open>maskSize\<close> of a model configuration); the quotients and products are
  taken in the real numbers, and \<open>Math.floor\<close> is the floor.
\<close>

record Size =
  sz_w :: nat
  sz_h :: nat

record PadBox =
  pad_x :: real
  pad_y :: real
  pad_w :: real
  pad_h :: real

definition resizeAndPadBox :: "Size \<Rightarrow> Size \<Rightarrow> PadBox" where
  "resizeAndPadBox sourceDim targetDim =
     (if sz_h sourceDim = sz_w sourceDim
      then \<lparr>pad_x = 0, pad_y = 0, pad_w = real (sz_w targetDim), pad_h = real (sz_h targetDim)\<rparr>
      else if sz_h sourceDim > sz_w sourceDim
      then let newW = (real (sz_w sourceDim) / real (sz_h sourceDim)) * real (sz_w targetDim);
               padLeft = of_int \<lfloor>(real (sz_w targetDim) - newW) / 2\<rfloor>
           in \<lparr>pad_x = padLeft, pad_y = 0, pad_w = newW, pad_h = real (sz_h targetDim)\<rparr>
      else let newH = (real (sz_h sourceDim) / real (sz_w sourceDim)) * real (sz_h targetDim);
               padTop = of_int \<lfloor>(real (sz_h targetDim) - newH) / 2\<rfloor>
           in \<lparr>pad_x = 0, pad_y = padTop, pad_w = real (sz_w targetDim), pad_h = newH\<rparr>)"

text \<open>
  \<open>createSquareCanvas\<close> makes a canvas of the target size, fills it with \<open>#000000\<close> and
  draws the whole source into the box \<open>resizeAndPadBox\<close> computes.  The pixels the browser
  paints are not computed here: the result records the size of the new canvas, the fill
  and the two rectangles of the \<open>drawImage\<close> call.  \<open>fresh_context2d\<close> says whether the new
  canvas yields a 2D context.  \<open>drawImage\<close> throws an \<open>InvalidStateError\<close> for a source
  canvas without pixels.
\<close>

record SquareCanvas =
  sq_width :: nat
  sq_height :: nat
  sq_fillStyle :: string
  sq_fillRect :: "nat \<times> nat \<times> nat \<times> nat"
  sq_drawSource :: "nat \<times> nat \<times> nat \<times> nat"
  sq_drawDest :: PadBox

definition createSquareCanvas :: "bool \<Rightarrow> canvas \<Rightarrow> Size \<Rightarrow> exn + SquareCanvas" where
  "createSquareCanvas fresh_context2d source targetSize =
     (if \<not> fresh_context2d then Inl (Error ''Failed to get 2D context'')
      else if cwidth source = 0 \<or> cheight source = 0
      then Inl (DOMException ''InvalidStateError'')
      else let box = resizeAndPadBox \<lparr>sz_w = cwidth source, sz_h = cheight source\<rparr> targetSize
           in Inr \<lparr>sq_width = sz_w targetSize, sq_height = sz_h targetSize,
                  sq_fillStyle = ''#000000'',
                  sq_fillRect = (0, 0, sz_w targetSize, sz_h targetSize),
                  sq_drawSource = (0, 0, cwidth source, cheight source),
                  sq_drawDest = box\<rparr>)"

section \<open>Model configurations (models/types, models/config)\<close>

datatype TensorFormat = CHW | HWC

datatype ModelType = Sam2 | Mobilesam

text \<open>
  The numbers of a configuration that enter the tensor arithmetic (\<open>inputRange\<close> and the
  normalization parameters) have the element type \<open>'a\<close> of the tensors.
\<close>

record 'a Normalization =
  mean :: "'a list"
  std :: "'a list"
  scale :: 'a

record 'a ModelConfig =
  cfg_id :: string
  cfg_name :: string
  cfg_description :: string
  encoderUrl :: string
  decoderUrl :: string
  imageSize :: Size
  maskSize :: Size
  modelType :: ModelType
  encoderInputName :: string
  useBatchDimension :: bool
  tensorFormat :: TensorFormat
  inputRange :: "'a option"
  normalization :: "'a Normalization option"

definition MOBILESAM_CONFIG :: "real ModelConfig" where
  "MOBILESAM_CONFIG =
     \<lparr>cfg_id = ''mobilesam'',
      cfg_name = ''MobileSAM'',
      cfg_description = ''Mobile SAM (45 MB, TinyViT encoder) - Fast and lightweight'',
      encoderUrl = ''https://huggingface.co/Acly/MobileSAM/resolve/main/mobile_sam_image_encoder.onnx'',
      decoderUrl = ''https://huggingface.co/Acly/MobileSAM/resolve/main/sam_mask_decoder_multi.onnx'',
      imageSize = \<lparr>sz_w = 1024, sz_h = 1024\<rparr>,
      maskSize = \<lparr>sz_w = 256, sz_h = 256\<rparr>,
      modelType = Mobilesam,
      encoderInputName = ''input_image'',
      useBatchDimension = False,
      tensorFormat = HWC,
      inputRange = Some 255,
      normalization = None\<rparr>"

definition SAM2_TINY_CONFIG :: "real ModelConfig" where
  "SAM2_TINY_CONFIG =
     \<lparr>cfg_id = ''sam2_tiny'',
      cfg_name = ''SAM2 Tiny'',
      cfg_description = ''Meta's SAM2 Tiny (151 MB, Hiera encoder) - Higher quality'',
      encoderUrl = ''https://huggingface.co/g-ronimo/sam2-tiny/resolve/main/sam2_hiera_tiny_encoder.with_runtime_opt.ort'',
      decoderUrl = ''https://huggingface.co/g-ronimo/sam2-tiny/resolve/main/sam2_hiera_tiny_decoder_pr1.onnx'',
      imageSize = \<lparr>sz_w = 1024, sz_h = 1024\<rparr>,
      maskSize = \<lparr>sz_w = 256, sz_h = 256\<rparr>,
      modelType = Sam2,
      encoderInputName = ''image'',
      useBatchDimension = True,
      tensorFormat = CHW,
      inputRange = None,
      normalization = None\<rparr>"

text \<open>
  The object literal \<open>MODEL_CONFIGS\<close>, its own properties in the order they are written
  (the order \<open>Object.keys\<close> lists them in).
\<close>

definition MODEL_CONFIGS :: "(string \<times> real ModelConfig) list" where
  "MODEL_CONFIGS =
     [(''mobilesam'', MOBILESAM_CONFIG),
      (''sam2_tiny'', SAM2_TINY_CONFIG),
      (''sam2'', SAM2_TINY_CONFIG)]"

definition DEFAULT_MODEL_ID :: string where
  "DEFAULT_MODEL_ID = ''sam2_tiny''"

text \<open>
  Reading a property \<open>obj[key]\<close> of an object literal: an own property if there is one,
  otherwise the property of that name that every object inherits from \<open>Object.prototype\<close>
  (a function, or for \<open>__proto__\<close> the prototype object: each of them truthy), otherwise
  \<open>undefined\<close>.
\<close>

datatype 'v js_property = Own 'v | Inherited string | Undefined

definition object_prototype_keys :: "string list" where
  "object_prototype_keys =
     [''constructor'', ''__defineGetter__'', ''__defineSetter__'', ''hasOwnProperty'',
      ''__lookupGetter__'', ''__lookupSetter__'', ''isPrototypeOf'', ''propertyIsEnumerable'',
      ''toString'', ''valueOf'', ''__proto__'', ''toLocaleString'']"

definition get_property :: "(string \<times> 'v) list \<Rightarrow> string \<Rightarrow> 'v js_property" where
  "get_property obj key =
     (case map_of obj key of
        Some v \<Rightarrow> Own v
      | None \<Rightarrow> if key \<in> set object_prototype_keys then Inherited key else Undefined)"

text \<open>\<open>Array.prototype.join\<close> on strings.\<close>

fun join :: "string list \<Rightarrow> string \<Rightarrow> string" where
  "join [] sep = []"
| "join [x] sep = x"
| "join (x # y # ys) sep = x @ sep @ join (y # ys) sep"

text \<open>
  \<open>getModelConfig\<close>: the test \<open>!config\<close> holds for \<open>undefined\<close> only; what the lookup found
  is returned otherwise.
\<close>

definition getModelConfig :: "string \<Rightarrow> exn + (real ModelConfig) js_property" where
  "getModelConfig modelId =
     (let config = get_property MODEL_CONFIGS modelId
      in if config = Undefined
         then Inl (Error (''Unknown model: '' @ modelId @ ''. Available models: ''
                            @ join (map fst MODEL_CONFIGS) '', ''))
         else Inr config)"

section \<open>Worker: preparing the encoder input (core/worker)\<close>


text \<open>\<open>xs[i]\<close> on a JavaScript array: \<open>None\<close> is \<open>undefined\<close>.\<close>

definition js_index :: "'a list \<Rightarrow> nat \<Rightarrow> 'a option" where
  "js_index xs i = (if i < length xs then Some (xs ! i) else None)"


section \<open>Confidence scores and the best mask (SAMClient.segment)\<close>

text \<open>
  A confidence score is a JavaScript number that is only compared: a real number, one of
  the two infinities, or \<open>NaN\<close>.  \<open>js_gt a b\<close> is the comparison \<open>a > b\<close>, false whenever
  an operand is \<open>NaN\<close>.
\<close>

datatype jsnum = NaN | NegInfinity | Finite real | PosInfinity

fun js_gt :: "jsnum \<Rightarrow> jsnum \<Rightarrow> bool" where
  "js_gt NaN b = False"
| "js_gt a NaN = False"
| "js_gt NegInfinity b = False"
| "js_gt (Finite a) NegInfinity = True"
| "js_gt (Finite a) (Finite b) = (b < a)"
| "js_gt (Finite a) PosInfinity = False"
| "js_gt PosInfinity PosInfinity = False"
| "js_gt PosInfinity b = True"

text \<open>
  The loop of \<open>segment\<close> that finds the best mask by its score: \<open>bestMaskIdx = 0\<close> and
  \<open>bestScore = -Infinity\<close> at the start, one comparison per score.
\<close>

definition selectBestMask :: "jsnum list \<Rightarrow> nat \<times> jsnum" where
  "selectBestMask iouData =
     fold (\<lambda>i (bestMaskIdx, bestScore).
             if js_gt (iouData ! i) bestScore then (i, iouData ! i)
             else (bestMaskIdx, bestScore))
       [0..<length iouData] (0, NegInfinity)"

section \<open>Downloading a model (core/SAM2)\<close>

text \<open>
  The world \<open>downloadModel\<close> talks to.  The origin private file system is a map from file
  names to their bytes, reachable when \<open>getDirectory_ok\<close>; reading a file and writing one
  can fail per file name.  A \<open>fetch\<close> either rejects or yields a response with its \<open>ok\<close>
  flag, its status and its body (\<open>None\<close> when reading the body rejects).  A failed write
  either never created the file or left a newly created file empty.
\<close>

type_synonym bytes = "8 word list"

datatype fetch_outcome = NetworkError | Response bool nat "bytes option"

datatype write_outcome = WriteOk | WriteFailsBeforeCreate | WriteFailsAfterCreate

record download_env =
  getDirectory_ok :: bool
  opfs_files :: "string \<rightharpoonup> bytes"
  read_ok :: "string \<Rightarrow> bool"
  fetch_response :: "string \<Rightarrow> fetch_outcome"
  write_result :: "string \<Rightarrow> write_outcome"

text \<open>
  \<open>url.split('/').pop()\<close>: the part of the URL after its last slash.  \<open>split\<close> always
  yields at least one part, so the alternative \<open>'model.onnx'\<close> is never taken.
\<close>

definition url_filename :: "string \<Rightarrow> string" where
  "url_filename url = rev (takeWhile (\<lambda>c. c \<noteq> CHR ''/'') (rev url))"

fun decimal :: "nat \<Rightarrow> string" where
  "decimal n =
     (if n < 10 then [char_of (48 + n)]
      else decimal (n div 10) @ [char_of (48 + n mod 10)])"

text \<open>
  Step 1 of \<open>downloadModel\<close>, the body of its first \<open>try\<close>: \<open>Inl\<close> when one of the awaited
  calls rejects, \<open>Inr None\<close> when the file is there but empty, \<open>Inr (Some bytes)\<close> when the
  function returns the cached bytes.
\<close>

definition cache_lookup :: "download_env \<Rightarrow> string \<Rightarrow> exn + bytes option" where
  "cache_lookup env filename =
     (if \<not> getDirectory_ok env then Inl (DOMException ''SecurityError'')
      else case opfs_files env filename of
             None \<Rightarrow> Inl (DOMException ''NotFoundError'')
           | Some content \<Rightarrow>
               if length content > 0
               then if read_ok env filename then Inr (Some content)
                    else Inl (DOMException ''NotReadableError'')
               else Inr None)"

text \<open>Step 2, the body of the second \<open>try\<close>.\<close>

definition fetch_buffer :: "download_env \<Rightarrow> string \<Rightarrow> exn + bytes" where
  "fetch_buffer env url =
     (case fetch_response env url of
        NetworkError \<Rightarrow> Inl TypeError
      | Response ok status body \<Rightarrow>
          if \<not> ok then Inl (Error (''HTTP '' @ decimal status))
          else case body of None \<Rightarrow> Inl TypeError | Some buffer \<Rightarrow> Inr buffer)"

text \<open>Step 3, the body of the third \<open>try\<close>, with the files it leaves behind.\<close>

definition cache_store ::
    "download_env \<Rightarrow> string \<Rightarrow> bytes \<Rightarrow> (exn + unit) \<times> (string \<rightharpoonup> bytes)" where
  "cache_store env filename buffer =
     (if \<not> getDirectory_ok env then (Inl (DOMException ''SecurityError''), opfs_files env)
      else case write_result env filename of
             WriteOk \<Rightarrow> (Inr (), (opfs_files env)(filename \<mapsto> buffer))
           | WriteFailsBeforeCreate \<Rightarrow> (Inl (DOMException ''NotAllowedError''), opfs_files env)
           | WriteFailsAfterCreate \<Rightarrow>
               (Inl (DOMException ''QuotaExceededError''),
                case opfs_files env filename of
                  None \<Rightarrow> (opfs_files env)(filename \<mapsto> [])
                | Some old \<Rightarrow> opfs_files env))"

text \<open>
  \<open>downloadModel\<close>: every rejection is caught, so the function itself never throws.  The
  result holds the returned buffer (\<open>None\<close> is \<open>null\<close>), the URLs fetched over the network
  and the files afterwards.
\<close>

record download_result =
  dl_buffer :: "bytes option"
  dl_fetched :: "string list"
  dl_files :: "string \<rightharpoonup> bytes"

definition downloadModel :: "download_env \<Rightarrow> string \<Rightarrow> download_result" where
  "downloadModel env url =
     (let filename = url_filename url
      in case cache_lookup env filename of
           Inr (Some cached) \<Rightarrow>
             \<lparr>dl_buffer = Some cached, dl_fetched = [], dl_files = opfs_files env\<rparr>
         | _ \<Rightarrow>
             (case fetch_buffer env url of
                Inl e \<Rightarrow> \<lparr>dl_buffer = None, dl_fetched = [url], dl_files = opfs_files env\<rparr>
              | Inr buffer \<Rightarrow>
                  \<lparr>dl_buffer = Some buffer, dl_fetched = [url],
                   dl_files = snd (cache_store env filename buffer)\<rparr>))"

section \<open>The SAM2 class (core/SAM2)\<close>

text \<open>
  An \<open>ort.Tensor\<close> of type \<open>float32\<close> with its data and dimensions, an inference session
  with the names of its outputs, and a point prompt in pixel coordinates.
\<close>

record ort_tensor =
  ot_data :: "real list"
  ot_dims :: "nat list"

record InferenceSession =
  session_model :: bytes
  outputNames :: "string list"

record PointPrompt =
  pt_x :: real
  pt_y :: real
  pt_label :: nat

text \<open>
  The inference backend: \<open>create_session model ep\<close> is what
  \<open>InferenceSession.create(model, {executionProviders: [ep]})\<close> resolves to (\<open>None\<close> when it
  rejects), \<open>run_session session inputs\<close> what \<open>session.run(inputs)\<close> resolves to or rejects
  with.  An input or output that is \<open>undefined\<close> or inherited is kept as the property
  lookup found it.
\<close>

record backend =
  create_session :: "bytes \<Rightarrow> string \<Rightarrow> InferenceSession option"
  run_session :: "InferenceSession \<Rightarrow> (string \<times> ort_tensor js_property) list
                    \<Rightarrow> exn + (string \<times> ort_tensor) list"

text \<open>
  The fields of a \<open>SAM2\<close> object.  \<open>backend_calls\<close> is not a field of the class: it records,
  in order, the sessions created and the session runs made through this object.
\<close>

datatype backend_call =
    SessionCreated bytes string
  | EncoderRun "(string \<times> ort_tensor js_property) list"
  | DecoderRun "(string \<times> ort_tensor js_property) list"

record SAM2 =
  bufferEncoder :: "bytes option"
  bufferDecoder :: "bytes option"
  sessionEncoder :: "(InferenceSession \<times> string) option"
  sessionDecoder :: "(InferenceSession \<times> string) option"
  imageEncoded :: "(string \<times> ort_tensor js_property) list option"
  sam2_modelConfig :: "real ModelConfig"
  sam2_modelType :: ModelType
  backend_calls :: "backend_call list"

text \<open>
  The object the constructor makes for a descriptor (given as an object, or looked up from
  an id by \<open>getModelConfig\<close>): every buffer, session and the encoded image are \<open>null\<close>.
\<close>

definition SAM2_new :: "real ModelConfig \<Rightarrow> SAM2" where
  "SAM2_new modelConfig =
     \<lparr>bufferEncoder = None, bufferDecoder = None,
      sessionEncoder = None, sessionDecoder = None,
      imageEncoded = None,
      sam2_modelConfig = modelConfig,
      sam2_modelType = modelType modelConfig,
      backend_calls = []\<rparr>"

text \<open>
  \<open>downloadModels\<close>: the encoder, then the decoder, the second download seeing the files the
  first one left.
\<close>

definition downloadModels :: "download_env \<Rightarrow> SAM2 \<Rightarrow> SAM2 \<times> (string \<rightharpoonup> bytes)" where
  "downloadModels env this =
     (let r1 = downloadModel env (encoderUrl (sam2_modelConfig this));
          this = this\<lparr>bufferEncoder := dl_buffer r1\<rparr>;
          r2 = downloadModel (env\<lparr>opfs_files := dl_files r1\<rparr>) (decoderUrl (sam2_modelConfig this));
          this = this\<lparr>bufferDecoder := dl_buffer r2\<rparr>
      in (this, dl_files r2))"

text \<open>
  \<open>getORTSession\<close>: the providers are tried in order, the first session created is
  returned with the provider's name, and the error is thrown when none is left.
\<close>

fun try_providers :: "backend \<Rightarrow> bytes \<Rightarrow> string list \<Rightarrow> exn + (InferenceSession \<times> string)" where
  "try_providers be model [] =
     Inl (Error ''[SAM] Failed to create ONNX session with any provider'')"
| "try_providers be model (ep # eps) =
     (case create_session be model ep of
        Some session \<Rightarrow> Inr (session, ep)
      | None \<Rightarrow> try_providers be model eps)"

definition getORTSession :: "backend \<Rightarrow> bytes \<Rightarrow> exn + (InferenceSession \<times> string)" where
  "getORTSession be model = try_providers be model [''webgpu'', ''cpu'']"

definition getEncoderSession ::
    "backend \<Rightarrow> SAM2 \<Rightarrow> (exn + (InferenceSession \<times> string) option) \<times> SAM2" where
  "getEncoderSession be this =
     (case (sessionEncoder this, bufferEncoder this) of
        (None, Some buffer) \<Rightarrow>
          (case getORTSession be buffer of
             Inl e \<Rightarrow> (Inl e, this)
           | Inr created \<Rightarrow>
               (Inr (Some created),
                this\<lparr>sessionEncoder := Some created,
                     backend_calls := backend_calls this @ [SessionCreated buffer (snd created)]\<rparr>))
      | _ \<Rightarrow> (Inr (sessionEncoder this), this))"

definition getDecoderSession ::
    "backend \<Rightarrow> SAM2 \<Rightarrow> (exn + (InferenceSession \<times> string) option) \<times> SAM2" where
  "getDecoderSession be this =
     (case (sessionDecoder this, bufferDecoder this) of
        (None, Some buffer) \<Rightarrow>
          (case getORTSession be buffer of
             Inl e \<Rightarrow> (Inl e, this)
           | Inr created \<Rightarrow>
               (Inr (Some created),
                this\<lparr>sessionDecoder := Some created,
                     backend_calls := backend_calls this @ [SessionCreated buffer (snd created)]\<rparr>))
      | _ \<Rightarrow> (Inr (sessionDecoder this), this))"

text \<open>
  \<open>createSessions\<close>: \<open>&&\<close> does not ask for the decoder session when the encoder session is
  \<open>null\<close>.  The report is the pair of \<open>success\<close> and \<open>device\<close>.
\<close>

definition createSessions :: "backend \<Rightarrow> SAM2 \<Rightarrow> (exn + bool \<times> string option) \<times> SAM2" where
  "createSessions be this =
     (case getEncoderSession be this of
        (Inl e, this) \<Rightarrow> (Inl e, this)
      | (Inr None, this) \<Rightarrow> (Inr (False, None), this)
      | (Inr (Some enc), this) \<Rightarrow>
          (case getDecoderSession be this of
             (Inl e, this) \<Rightarrow> (Inl e, this)
           | (Inr None, this) \<Rightarrow> (Inr (False, None), this)
           | (Inr (Some dec), this) \<Rightarrow>
               (Inr (True, map_option snd (sessionEncoder this)), this)))"

text \<open>
  \<open>results[session.outputNames[i]]\<close>: an \<open>undefined\<close> name is the property key
  \<open>undefined\<close>.
\<close>

definition result_at :: "(string \<times> ort_tensor) list \<Rightarrow> string list \<Rightarrow> nat \<Rightarrow> ort_tensor js_property" where
  "result_at results names i =
     get_property results (case js_index names i of None \<Rightarrow> ''undefined'' | Some name \<Rightarrow> name)"

text \<open>
  Reading a property of an object whose own properties hold looked-up values (one of them
  may hold \<open>undefined\<close>).
\<close>

definition get_value :: "(string \<times> 'v js_property) list \<Rightarrow> string \<Rightarrow> 'v js_property" where
  "get_value obj key =
     (case get_property obj key of
        Own v \<Rightarrow> v
      | Inherited k \<Rightarrow> Inherited k
      | Undefined \<Rightarrow> Undefined)"

text \<open>
  \<open>encodeImage\<close>: destructuring the \<open>null\<close> that \<open>getEncoderSession\<close> returns without a
  buffer throws a \<open>TypeError\<close>.  \<open>imageEncoded\<close> is assigned after the run has resolved.
\<close>

definition encodeImage :: "backend \<Rightarrow> ort_tensor \<Rightarrow> SAM2 \<Rightarrow> (exn + unit) \<times> SAM2" where
  "encodeImage be inputTensor this =
     (case getEncoderSession be this of
        (Inl e, this) \<Rightarrow> (Inl e, this)
      | (Inr None, this) \<Rightarrow> (Inl TypeError, this)
      | (Inr (Some (session, ep)), this) \<Rightarrow>
          (let inputs = [(encoderInputName (sam2_modelConfig this), Own inputTensor)];
               this = this\<lparr>backend_calls := backend_calls this @ [EncoderRun inputs]\<rparr>
           in case run_session be session inputs of
                Inl e \<Rightarrow> (Inl e, this)
              | Inr results \<Rightarrow>
                  (Inr (),
                   (case sam2_modelType this of
                      Sam2 \<Rightarrow>
                        this\<lparr>imageEncoded := Some
                          [(''high_res_feats_0'', result_at results (outputNames session) 0),
                           (''high_res_feats_1'', result_at results (outputNames session) 1),
                           (''image_embed'', result_at results (outputNames session) 2)]\<rparr>
                    | Mobilesam \<Rightarrow>
                        this\<lparr>imageEncoded := Some
                          [(''image_embed'', result_at results (outputNames session) 0)]\<rparr>))))"

text \<open>
  \<open>decode\<close>.  The first statement throws when \<open>imageEncoded\<close> is \<open>null\<close>; only after it are
  the decoder session obtained, the inputs built and the session run.
\<close>

definition decode ::
    "backend \<Rightarrow> PointPrompt list \<Rightarrow> ort_tensor option \<Rightarrow> SAM2
       \<Rightarrow> (exn + (string \<times> ort_tensor) list) \<times> SAM2" where
  "decode be points masks this =
     (case imageEncoded this of
        None \<Rightarrow> (Inl (Error ''[SAM] Image not encoded. Call encodeImage first.''), this)
      | Some encoded \<Rightarrow>
          (case getDecoderSession be this of
             (Inl e, this) \<Rightarrow> (Inl e, this)
           | (Inr None, this) \<Rightarrow> (Inl TypeError, this)
           | (Inr (Some (session, ep)), this) \<Rightarrow>
               (let flatPoints = map (\<lambda>p. [pt_x p, pt_y p]) points;
                    flatLabels = map (\<lambda>p. real (pt_label p)) points;
                    (maskInput, hasMaskInput) =
                      (case masks of
                         Some m \<Rightarrow> (m, \<lparr>ot_data = [1], ot_dims = [1]\<rparr>)
                       | None \<Rightarrow>
                           (\<lparr>ot_data = replicate (256 * 256) 0, ot_dims = [1, 1, 256, 256]\<rparr>,
                            \<lparr>ot_data = [0], ot_dims = [1]\<rparr>));
                    point_coords =
                      \<lparr>ot_data = concat flatPoints, ot_dims = [1, length flatPoints, 2]\<rparr>;
                    point_labels =
                      \<lparr>ot_data = flatLabels, ot_dims = [1, length flatLabels]\<rparr>;
                    inputs =
                      (case sam2_modelType this of
                         Mobilesam \<Rightarrow>
                           [(''image_embeddings'', get_value encoded ''image_embed''),
                            (''point_coords'', Own point_coords),
                            (''point_labels'', Own point_labels),
                            (''mask_input'', Own maskInput),
                            (''has_mask_input'', Own hasMaskInput),
                            (''orig_im_size'',
                               Own \<lparr>ot_data =
                                      [real (sz_h (imageSize (sam2_modelConfig this))),
                                       real (sz_w (imageSize (sam2_modelConfig this)))],
                                    ot_dims = [2]\<rparr>)]
                       | Sam2 \<Rightarrow>
                           [(''image_embed'', get_value encoded ''image_embed''),
                            (''high_res_feats_0'', get_value encoded ''high_res_feats_0''),
                            (''high_res_feats_1'', get_value encoded ''high_res_feats_1''),
                            (''point_coords'', Own point_coords),
                            (''point_labels'', Own point_labels),
                            (''mask_input'', Own maskInput),
                            (''has_mask_input'', Own hasMaskInput)]);
                    this = this\<lparr>backend_calls := backend_calls this @ [DecoderRun inputs]\<rparr>
                in (run_session be session inputs, this))))"

definition dispose :: "SAM2 \<Rightarrow> SAM2" where
  "dispose this =
     this\<lparr>sessionEncoder := None, sessionDecoder := None,
          bufferEncoder := None, bufferDecoder := None,
          imageEncoded := None\<rparr>"

text \<open>
  A call of a method of the class, with the world it runs in, and a sequence of calls with
  what each of them returned or threw.
\<close>

datatype sam2_call =
    DownloadModels download_env
  | CreateSessions backend
  | EncodeImage backend ort_tensor
  | Decode backend "PointPrompt list" "ort_tensor option"
  | Dispose

datatype sam2_return =
    Done
  | Report bool "string option"
  | Outputs "(string \<times> ort_tensor) list"

fun sam2_step :: "sam2_call \<Rightarrow> SAM2 \<Rightarrow> (exn + sam2_return) \<times> SAM2" where
  "sam2_step (DownloadModels env) this = (Inr Done, fst (downloadModels env this))"
| "sam2_step (CreateSessions be) this =
     (case createSessions be this of
        (Inl e, this) \<Rightarrow> (Inl e, this)
      | (Inr (success, device), this) \<Rightarrow> (Inr (Report success device), this))"
| "sam2_step (EncodeImage be inputTensor) this =
     (case encodeImage be inputTensor this of
        (Inl e, this) \<Rightarrow> (Inl e, this)
      | (Inr u, this) \<Rightarrow> (Inr Done, this))"
| "sam2_step (Decode be points masks) this =
     (case decode be points masks this of
        (Inl e, this) \<Rightarrow> (Inl e, this)
      | (Inr outputs, this) \<Rightarrow> (Inr (Outputs outputs), this))"
| "sam2_step Dispose this = (Inr Done, dispose this)"

fun sam2_run ::
    "sam2_call list \<Rightarrow> SAM2 \<Rightarrow> (sam2_call \<times> (exn + sam2_return)) list \<times> SAM2" where
  "sam2_run [] this = ([], this)"
| "sam2_run (c # cs) this =
     (let (r, this) = sam2_step c this;
          (rs, this) = sam2_run cs this
      in ((c, r) # rs, this))"

fun successful_encodeImage :: "sam2_call \<times> (exn + sam2_return) \<Rightarrow> bool" where
  "successful_encodeImage (EncodeImage be inputTensor, Inr r) = True"
| "successful_encodeImage other = False"

section \<open>Mask canvases (core/imageutils)\<close>

text \<open>
  \<open>float32ArrayToCanvas\<close>: four bytes per element, the fixed colour with full alpha where the
  value is greater than zero and four zero bytes elsewhere.  \<open>fresh_context2d\<close> says whether
  the new canvas yields a 2D context.  \<open>new ImageData(data, sw, sh)\<close> throws when the data
  are empty, when \<open>sw\<close> is zero and when the data are not \<open>sw\<close> by \<open>sh\<close> pixels.
\<close>

definition float32ArrayToCanvas :: "bool \<Rightarrow> real list \<Rightarrow> nat \<Rightarrow> nat \<Rightarrow> exn + canvas" where
  "float32ArrayToCanvas fresh_context2d array width height =
     (let imageData =
            concat (map (\<lambda>v. let maskedPx = v > 0
                              in [if maskedPx then 0x32 else 0,
                                  if maskedPx then 0xcd else 0,
                                  if maskedPx then 0x32 else 0,
                                  if maskedPx then 255 else 0]) array)
      in if \<not> fresh_context2d then Inl (Error ''Failed to get 2D context'')
         else if imageData = [] then Inl (DOMException ''InvalidStateError'')
         else if width = 0 \<or> length array mod width \<noteq> 0 \<or> length array div width \<noteq> height
         then Inl (DOMException ''IndexSizeError'')
         else Inr \<lparr>cwidth = width, cheight = height, context2d = True, rgba = imageData\<rparr>)"

text \<open>
  \<open>resizeCanvas\<close>: the pixels the browser's scaling \<open>drawImage\<close> produces are given
  (\<open>scaled\<close>), not computed.
\<close>

definition resizeCanvas :: "bool \<Rightarrow> 8 word list \<Rightarrow> canvas \<Rightarrow> Size \<Rightarrow> exn + canvas" where
  "resizeCanvas fresh_context2d scaled canvasOrig size' =
     (if \<not> fresh_context2d then Inl (Error ''Failed to get 2D context'')
      else if cwidth canvasOrig = 0 \<or> cheight canvasOrig = 0
      then Inl (DOMException ''InvalidStateError'')
      else Inr \<lparr>cwidth = sz_w size', cheight = sz_h size', context2d = True, rgba = scaled\<rparr>)"

definition maskCanvasToFloat32Array :: "canvas \<Rightarrow> exn + real list" where
  "maskCanvasToFloat32Array cv =
     (case get2DContext cv of Inl e \<Rightarrow> Inl e | Inr ctx \<Rightarrow>
      case getImageData ctx of Inl e \<Rightarrow> Inl e | Inr imageData \<Rightarrow>
        Inr (map (\<lambda>i. let idx = i * 4
                       in (real (unat (imageData ! idx)) + real (unat (imageData ! (idx + 1)))
                             + real (unat (imageData ! (idx + 2)))) / (3 * 255))
               [0..<cwidth cv * cheight cv]))"

text \<open>
  \<open>imageToCanvas\<close>: a canvas is returned as it is; an \<open>ImageData\<close>, an image element or a
  bitmap (its size and pixels) is drawn onto a new canvas.
\<close>

datatype ImageInput =
    CanvasInput canvas
  | ImageDataInput nat nat "8 word list"
  | DrawableInput nat nat "8 word list"

fun imageToCanvas :: "bool \<Rightarrow> ImageInput \<Rightarrow> exn + canvas" where
  "imageToCanvas fresh_context2d (CanvasInput cv) = Inr cv"
| "imageToCanvas fresh_context2d (ImageDataInput w h pixels) =
     (if \<not> fresh_context2d then Inl (Error ''Failed to get 2D context'')
      else Inr \<lparr>cwidth = w, cheight = h, context2d = True, rgba = pixels\<rparr>)"
| "imageToCanvas fresh_context2d (DrawableInput w h pixels) =
     (if \<not> fresh_context2d then Inl (Error ''Failed to get 2D context'')
      else Inr \<lparr>cwidth = w, cheight = h, context2d = True, rgba = pixels\<rparr>)"

section \<open>The worker manager and the client (SAMWorker, SAMClient)\<close>

text \<open>
  A request posted to the worker, and the message that settles the promise waiting for its
  answer: the answer of the request's own type, or an \<open>error\<close> message.  A call whose
  answer never comes does not return and has no place in a sequence of calls.
\<close>

datatype worker_request =
    PingRequest string
  | EncodeImageRequest "real list" "nat list"
  | DecodeMaskRequest "PointPrompt list" "real list option" "nat list option"

datatype 'a worker_reply = Reply 'a | ErrorReply string

record DecodeMaskResult =
  masks_data :: "real list"
  masks_dims :: "nat list"
  iou_predictions_data :: "jsnum list"
  iou_predictions_dims :: "nat list"

text \<open>
  \<open>SAMWorker\<close>: whether a worker is set, the \<open>initialized\<close> flag, and (not a field of the
  class) the requests posted so far.
\<close>

record SAMWorker =
  has_worker :: bool
  initialized :: bool
  posted :: "worker_request list"

definition worker_initialize ::
    "(bool \<times> string option) worker_reply \<Rightarrow> string \<Rightarrow> SAMWorker
       \<Rightarrow> (exn + bool \<times> string option) \<times> SAMWorker" where
  "worker_initialize reply modelId w =
     (if \<not> has_worker w then (Inl (Error ''Worker not set. Call setWorker() first.''), w)
      else let w = w\<lparr>posted := posted w @ [PingRequest modelId]\<rparr>
           in case reply of
                Reply pong \<Rightarrow> (Inr pong, w\<lparr>initialized := True\<rparr>)
              | ErrorReply message \<Rightarrow> (Inl (Error message), w))"

definition worker_encodeImage ::
    "unit worker_reply \<Rightarrow> real list \<Rightarrow> nat list \<Rightarrow> SAMWorker \<Rightarrow> (exn + unit) \<times> SAMWorker" where
  "worker_encodeImage reply float32Array shape w =
     (if \<not> has_worker w \<or> \<not> initialized w then (Inl (Error ''Worker not initialized''), w)
      else let w = w\<lparr>posted := posted w @ [EncodeImageRequest float32Array shape]\<rparr>
           in case reply of
                Reply done \<Rightarrow> (Inr (), w)
              | ErrorReply message \<Rightarrow> (Inl (Error message), w))"

definition worker_decodeMask ::
    "DecodeMaskResult worker_reply \<Rightarrow> PointPrompt list \<Rightarrow> real list option \<Rightarrow> nat list option
       \<Rightarrow> SAMWorker \<Rightarrow> (exn + DecodeMaskResult) \<times> SAMWorker" where
  "worker_decodeMask reply points maskArray maskShape w =
     (if \<not> has_worker w \<or> \<not> initialized w then (Inl (Error ''Worker not initialized''), w)
      else let w = w\<lparr>posted := posted w @ [DecodeMaskRequest points maskArray maskShape]\<rparr>
           in case reply of
                Reply result \<Rightarrow> (Inr result, w)
              | ErrorReply message \<Rightarrow> (Inl (Error message), w))"

definition worker_terminate :: "SAMWorker \<Rightarrow> SAMWorker" where
  "worker_terminate w = (if has_worker w then w\<lparr>has_worker := False, initialized := False\<rparr> else w)"

text \<open>The fields of a \<open>SAMClient\<close> and the object its constructor makes for a descriptor.\<close>

record SAMClient =
  worker :: SAMWorker
  client_modelConfig :: "real ModelConfig"
  imageCanvas :: "canvas option"
  encodedImageSize :: "Size option"
  isReady :: bool

definition SAMClient_new :: "real ModelConfig \<Rightarrow> SAMClient" where
  "SAMClient_new modelConfig =
     \<lparr>worker = \<lparr>has_worker = False, initialized = False, posted = []\<rparr>,
      client_modelConfig = modelConfig,
      imageCanvas = None,
      encodedImageSize = None,
      isReady = False\<rparr>"

text \<open>
  \<open>initialize\<close>: the test \<open>if (workerUrl)\<close> fails for a missing URL and for the empty
  string.  \<open>worker_created\<close> says whether \<open>new URL\<close> and \<open>new Worker\<close> succeed (they throw
  a \<open>TypeError\<close> otherwise).
\<close>

definition initialize ::
    "bool \<Rightarrow> (bool \<times> string option) worker_reply \<Rightarrow> string option \<Rightarrow> SAMClient
       \<Rightarrow> (exn + unit) \<times> SAMClient" where
  "initialize worker_created reply workerUrl this =
     (case workerUrl of
        None \<Rightarrow>
          (Inl (Error ''Worker URL required. Use: new URL(\"@anthropic-ai/sam-web/worker\", import.meta.url)''),
           this)
      | Some url \<Rightarrow>
          if url = []
          then (Inl (Error ''Worker URL required. Use: new URL(\"@anthropic-ai/sam-web/worker\", import.meta.url)''),
                this)
          else if \<not> worker_created then (Inl TypeError, this)
          else let this = this\<lparr>worker := (worker this)\<lparr>has_worker := True\<rparr>\<rparr>
               in case worker_initialize reply (cfg_id (client_modelConfig this)) (worker this) of
                    (Inl e, w) \<Rightarrow> (Inl e, this\<lparr>worker := w\<rparr>)
                  | (Inr (success, device), w) \<Rightarrow>
                      if \<not> success
                      then (Inl (Error ''Failed to initialize SAM model''), this\<lparr>worker := w\<rparr>)
                      else (Inr (), this\<lparr>worker := w, isReady := True\<rparr>))"

text \<open>
  \<open>setImage\<close>.  \<open>painted\<close> are the pixels of the padded canvas after the browser has drawn
  the source into it.  The padded canvas and the encoded size are stored before the tensor
  is made and sent to the worker.
\<close>

record setImage_env =
  si_fresh_context2d :: bool
  si_painted :: "8 word list"
  si_reply :: "unit worker_reply"

definition setImage :: "setImage_env \<Rightarrow> ImageInput \<Rightarrow> SAMClient \<Rightarrow> (exn + unit) \<times> SAMClient" where
  "setImage env image' this =
     (if \<not> isReady this
      then (Inl (Error ''Client not initialized. Call initialize() first.''), this)
      else case imageToCanvas (si_fresh_context2d env) image' of
             Inl e \<Rightarrow> (Inl e, this)
           | Inr sourceCanvas \<Rightarrow>
      case createSquareCanvas (si_fresh_context2d env) sourceCanvas
             (imageSize (client_modelConfig this)) of
             Inl e \<Rightarrow> (Inl e, this)
           | Inr square \<Rightarrow>
        let squareCanvas = \<lparr>cwidth = sq_width square, cheight = sq_height square,
                             context2d = True, rgba = si_painted env\<rparr>;
            this = this\<lparr>imageCanvas := Some squareCanvas,
                       encodedImageSize := Some (imageSize (client_modelConfig this))\<rparr>
        in case canvasToFloat32Array squareCanvas of
             Inl e \<Rightarrow> (Inl e, this)
           | Inr t \<Rightarrow>
               (case worker_encodeImage (si_reply env) (tensor_float32Array t) (tensor_shape t)
                       (worker this) of
                  (Inl e, w) \<Rightarrow> (Inl e, this\<lparr>worker := w\<rparr>)
                | (Inr done, w) \<Rightarrow> (Inr (), this\<lparr>worker := w\<rparr>)))"

text \<open>
  \<open>segment\<close>.  \<open>sg_scaled\<close> are the pixels of the previous mask after the browser has
  scaled it to the mask size.  Reading \<open>this.encodedImageSize!.w\<close> throws a \<open>TypeError\<close>
  when the size is \<open>null\<close>.  With an \<open>undefined\<close> mask width or height the canvas for the
  mask cannot be made.
\<close>

record BoxPrompt =
  box_x1 :: real
  box_y1 :: real
  box_x2 :: real
  box_y2 :: real

record NormalizedBounds =
  nb_x :: real
  nb_y :: real
  nb_width :: real
  nb_height :: real

record SegmentResult =
  sr_bitmap :: canvas
  sr_data :: "real list"
  sr_shape :: "nat \<times> nat"
  sr_score :: jsnum
  sr_bounds :: NormalizedBounds

record SegmentOptions =
  so_points :: "PointPrompt list option"
  so_box :: "BoxPrompt option"
  so_previousMask :: "SegmentResult option"

record segment_env =
  sg_fresh_context2d :: bool
  sg_scaled :: "8 word list"
  sg_reply :: "DecodeMaskResult worker_reply"

text \<open>The prompts of \<open>segment\<close>: the points and the two corners of the box, in pixels.\<close>

definition segment_points :: "SegmentOptions \<Rightarrow> SAMClient \<Rightarrow> exn + PointPrompt list" where
  "segment_points options this =
     (let points = (case so_points options of None \<Rightarrow> [] | Some ps \<Rightarrow> ps)
      in if points = [] \<and> so_box options = None then Inr []
         else case encodedImageSize this of
                None \<Rightarrow> Inl TypeError
              | Some sz \<Rightarrow>
                  Inr (map (\<lambda>p. \<lparr>pt_x = pt_x p * real (sz_w sz),
                                  pt_y = pt_y p * real (sz_h sz),
                                  pt_label = pt_label p\<rparr>) points
                       @ (case so_box options of
                            None \<Rightarrow> []
                          | Some box \<Rightarrow>
                              [\<lparr>pt_x = box_x1 box * real (sz_w sz),
                                pt_y = box_y1 box * real (sz_h sz), pt_label = 2\<rparr>,
                               \<lparr>pt_x = box_x2 box * real (sz_w sz),
                                pt_y = box_y2 box * real (sz_h sz), pt_label = 3\<rparr>])))"

text \<open>The previous mask of \<open>segment\<close>, resized to the mask size, with its shape.\<close>

definition segment_previousMask ::
    "segment_env \<Rightarrow> SegmentOptions \<Rightarrow> SAMClient \<Rightarrow> exn + real list option \<times> nat list option" where
  "segment_previousMask env options this =
     (case so_previousMask options of
        None \<Rightarrow> Inr (None, None)
      | Some previousMask \<Rightarrow>
          (case float32ArrayToCanvas (sg_fresh_context2d env) (sr_data previousMask)
                  (snd (sr_shape previousMask)) (fst (sr_shape previousMask)) of
             Inl e \<Rightarrow> Inl e
           | Inr prevCanvas \<Rightarrow>
           case resizeCanvas (sg_fresh_context2d env) (sg_scaled env) prevCanvas
                  (maskSize (client_modelConfig this)) of
             Inl e \<Rightarrow> Inl e
           | Inr resizedMask \<Rightarrow>
           case maskCanvasToFloat32Array resizedMask of
             Inl e \<Rightarrow> Inl e
           | Inr maskArray \<Rightarrow>
               Inr (Some maskArray,
                    Some [1, 1, sz_h (maskSize (client_modelConfig this)),
                          sz_w (maskSize (client_modelConfig this))])))"

text \<open>
  What \<open>segment\<close> does with the answer of the worker: the best mask, its plane, its bitmap,
  its bounds divided by the mask size.
\<close>

definition segment_result :: "segment_env \<Rightarrow> DecodeMaskResult \<Rightarrow> exn + SegmentResult" where
  "segment_result env result =
     (let maskData = masks_data result;
          iouData = iou_predictions_data result;
          (bestMaskIdx, bestScore) = selectBestMask iouData
      in case (js_index (masks_dims result) 3, js_index (masks_dims result) 2) of
           (Some maskWidth, Some maskHeight) \<Rightarrow>
             (let bestMaskData = sliceTensor maskData (masks_dims result) bestMaskIdx
              in case float32ArrayToCanvas (sg_fresh_context2d env) bestMaskData
                        maskWidth maskHeight of
                   Inl e \<Rightarrow> Inl e
                 | Inr maskCanvas \<Rightarrow>
                     (let bitmap = maskCanvas;
                          bounds = findMaskBounds bestMaskData maskWidth maskHeight None;
                          normalizedBounds =
                            \<lparr>nb_x = real (box_x bounds) / real maskWidth,
                             nb_y = real (box_y bounds) / real maskHeight,
                             nb_width = real (box_width bounds) / real maskWidth,
                             nb_height = real (box_height bounds) / real maskHeight\<rparr>
                      in Inr \<lparr>sr_bitmap = bitmap,
                              sr_data = bestMaskData,
                              sr_shape = (maskHeight, maskWidth),
                              sr_score = bestScore,
                              sr_bounds = normalizedBounds\<rparr>))
         | _ \<Rightarrow> Inl TypeError)"

text \<open>\<open>segment\<close> itself: the guard, the prompts, the previous mask, the request, the result.\<close>

definition segment ::
    "segment_env \<Rightarrow> SegmentOptions \<Rightarrow> SAMClient \<Rightarrow> (exn + SegmentResult) \<times> SAMClient" where
  "segment env options this =
     (if \<not> isReady this \<or> imageCanvas this = None
      then (Inl (Error ''Image not set. Call setImage() first.''), this)
      else case segment_points options this of
             Inl e \<Rightarrow> (Inl e, this)
           | Inr allPoints \<Rightarrow>
        if length allPoints = 0
        then (Inl (Error ''At least one point or box required''), this)
        else case segment_previousMask env options this of
             Inl e \<Rightarrow> (Inl e, this)
           | Inr (maskArray, maskShape) \<Rightarrow>
        case worker_decodeMask (sg_reply env) allPoints maskArray maskShape (worker this) of
             (Inl e, w) \<Rightarrow> (Inl e, this\<lparr>worker := w\<rparr>)
           | (Inr result, w) \<Rightarrow> (segment_result env result, this\<lparr>worker := w\<rparr>))"

definition SAMClient_dispose :: "SAMClient \<Rightarrow> SAMClient" where
  "SAMClient_dispose this =
     this\<lparr>worker := worker_terminate (worker this),
          imageCanvas := None, encodedImageSize := None, isReady := False\<rparr>"

text \<open>
  A call of a method of the client with the world it runs in, and a sequence of calls; each
  entry of the history holds the client before the call, the call, and what it returned or
  threw.
\<close>

datatype client_call =
    Initialize bool "(bool \<times> string option) worker_reply" "string option"
  | SetImage setImage_env ImageInput
  | Segment segment_env SegmentOptions
  | DisposeClient

datatype client_return = Returned | Segmented SegmentResult

fun client_step :: "client_call \<Rightarrow> SAMClient \<Rightarrow> (exn + client_return) \<times> SAMClient" where
  "client_step (Initialize worker_created reply workerUrl) this =
     (case initialize worker_created reply workerUrl this of
        (Inl e, this) \<Rightarrow> (Inl e, this)
      | (Inr u, this) \<Rightarrow> (Inr Returned, this))"
| "client_step (SetImage env image') this =
     (case setImage env image' this of
        (Inl e, this) \<Rightarrow> (Inl e, this)
      | (Inr u, this) \<Rightarrow> (Inr Returned, this))"
| "client_step (Segment env options) this =
     (case segment env options this of
        (Inl e, this) \<Rightarrow> (Inl e, this)
      | (Inr result, this) \<Rightarrow> (Inr (Segmented result), this))"
| "client_step DisposeClient this = (Inr Returned, SAMClient_dispose this)"

fun client_run ::
    "client_call list \<Rightarrow> SAMClient
       \<Rightarrow> (SAMClient \<times> client_call \<times> (exn + client_return)) list \<times> SAMClient" where
  "client_run [] this = ([], this)"
| "client_run (c # cs) this =
     (let (r, next) = client_step c this;
          (rs, final) = client_run cs next
      in ((this, c, r) # rs, final))"

fun successful_setImage :: "SAMClient \<times> client_call \<times> (exn + client_return) \<Rightarrow> bool" where
  "successful_setImage (before, SetImage env image', Inr r) = True"
| "successful_setImage other = False"

text \<open>
  A \<open>setImage\<close> call that gets as far as storing the padded canvas: the client is ready and
  the conversion and the padding of the image do not throw.
\<close>

fun setImage_stores :: "SAMClient \<times> client_call \<times> (exn + client_return) \<Rightarrow> bool" where
  "setImage_stores (before, SetImage env image', r) =
     (isReady before
      \<and> (case imageToCanvas (si_fresh_context2d env) image' of
           Inl e \<Rightarrow> False
         | Inr sourceCanvas \<Rightarrow>
             (case createSquareCanvas (si_fresh_context2d env) sourceCanvas
                     (imageSize (client_modelConfig before)) of
                Inl e \<Rightarrow> False
              | Inr square \<Rightarrow> True)))"
| "setImage_stores other = False"

section \<open>Small worlds for the examples\<close>

text \<open>
  A descriptor with a one-pixel image and mask, a world without storage and network, and a
  backend that creates no session.
\<close>

definition stub_config :: "real ModelConfig" where
  "stub_config =
     SAM2_TINY_CONFIG\<lparr>imageSize := \<lparr>sz_w = 1, sz_h = 1\<rparr>, maskSize := \<lparr>sz_w = 1, sz_h = 1\<rparr>\<rparr>"

definition offline_env :: download_env where
  "offline_env =
     \<lparr>getDirectory_ok = False, opfs_files = Map.empty, read_ok = (\<lambda>f. False),
      fetch_response = (\<lambda>u. NetworkError), write_result = (\<lambda>f. WriteFailsBeforeCreate)\<rparr>"

definition no_backend :: backend where
  "no_backend =
     \<lparr>create_session = (\<lambda>model ep. None), run_session = (\<lambda>session inputs. Inl TypeError)\<rparr>"
section \<open>Slicing one mask plane\<close>

lemma f32_slice_take_drop:
  "f32_slice xs start (start + n) = take n (drop start xs)"
  by (simp add: f32_slice_def Let_def min_def)

text \<open>
  C10.  For every buffer, every \<open>dims\<close> list whose entries 2 and 3 are \<open>width\<close> and
  \<open>height\<close>, and every mask index, \<open>sliceTensor\<close> returns the window of the buffer that
  starts at \<open>maskIndex * stride\<close> and has \<open>stride = width * height\<close> elements, cut off at
  the end of the buffer: its length is the clamped length, each of its elements is the
  buffer's element at the same offset into the window, and a mask index at or beyond the
  stored planes yields a shorter or empty array.
\<close>

theorem sliceTensor_window:
  assumes "4 \<le> length dims" and "dims ! 2 = width" and "dims ! 3 = height"
  shows "sliceTensor data dims maskIndex
           = take (width * height) (drop (maskIndex * (width * height)) data)
       \<and> length (sliceTensor data dims maskIndex)
           = min (length data) (maskIndex * (width * height) + width * height)
             - min (length data) (maskIndex * (width * height))
       \<and> (\<forall>k < length (sliceTensor data dims maskIndex).
             maskIndex * (width * height) + k < length data
           \<and> sliceTensor data dims maskIndex ! k = data ! (maskIndex * (width * height) + k))
       \<and> (length data \<le> maskIndex * (width * height) \<longrightarrow> sliceTensor data dims maskIndex = [])
       \<and> (maskIndex * (width * height) + width * height \<le> length data
            \<longrightarrow> length (sliceTensor data dims maskIndex) = width * height)"
proof -
  obtain b m rest where d: "dims = b # m # width # height # rest"
  proof -
    from assms(1) obtain b d1 where 1: "dims = b # d1" and "3 \<le> length d1"
      by (cases dims) auto
    then obtain m d2 where 2: "d1 = m # d2" and "2 \<le> length d2"
      by (cases d1) auto
    then obtain w d3 where 3: "d2 = w # d3" and "1 \<le> length d3"
      by (cases d2) auto
    then obtain h rest where 4: "d3 = h # rest"
      by (cases d3) auto
    from assms(2,3) have "w = width" "h = height"
      by (simp_all add: 1 2 3 4 numeral_2_eq_2 numeral_3_eq_3)
    with 1 2 3 4 that show thesis by simp
  qed
  have eq: "sliceTensor data dims maskIndex
              = take (width * height) (drop (maskIndex * (width * height)) data)"
    by (simp add: d Let_def f32_slice_take_drop mult.commute)
  define s where "s = width * height"
  define off where "off = maskIndex * s"
  have "take s (drop off data) = take s (drop off data)
       \<and> length (take s (drop off data)) = min (length data) (off + s) - min (length data) off
       \<and> (\<forall>k < length (take s (drop off data)).
             off + k < length data \<and> take s (drop off data) ! k = data ! (off + k))
       \<and> (length data \<le> off \<longrightarrow> take s (drop off data) = [])
       \<and> (off + s \<le> length data \<longrightarrow> length (take s (drop off data)) = s)"
    by (auto simp: min_def)
  then show ?thesis
    unfolding eq off_def s_def .
qed

theorem sliceTensor_window_witness:
  "sliceTensor [1, 2, 3, 4, 5, 6 :: int] [1, 3, 2, 1] 1 = [3, 4]
   \<and> sliceTensor [1, 2, 3, 4, 5, 6 :: int] [1, 3, 2, 2] 1 = [5, 6]
   \<and> sliceTensor [1, 2, 3, 4, 5, 6 :: int] [1, 3, 2, 2] 2 = []"
  using sliceTensor_window [of "[1, 3, 2, 1]" 2 1 "[1, 2, 3, 4, 5, 6 :: int]" 1]
    sliceTensor_window [of "[1, 3, 2, 2]" 2 2 "[1, 2, 3, 4, 5, 6 :: int]" 1]
    sliceTensor_window [of "[1, 3, 2, 2]" 2 2 "[1, 2, 3, 4, 5, 6 :: int]" 2]
  by (simp add: numeral_2_eq_2 numeral_3_eq_3)

section \<open>Generic facts about loops that store into an array\<close>

lemma fold_product:
  "fold (\<lambda>x. fold (\<lambda>y. f (x, y)) ys) xs = fold f (List.product xs ys)"
  by (induction xs) (simp_all add: fold_map comp_def)

lemma fold_product3:
  "fold (\<lambda>h. fold (\<lambda>w. fold (\<lambda>c. f (h, w, c)) cs) ws) hs
     = fold f (List.product hs (List.product ws cs))"
proof -
  have "fold (\<lambda>w. fold (\<lambda>c. f (h, w, c)) cs) ws = fold (\<lambda>p. f (h, p)) (List.product ws cs)" for h
    by (rule fold_product [of "\<lambda>p. f (h, p)"])
  then show ?thesis
    by (simp add: fold_product [of f])
qed

lemma length_fold_update:
  "length (fold (\<lambda>k acc. acc[g k := v k]) ks acc) = length acc"
  by (induction ks arbitrary: acc) simp_all

lemma fold_update_other:
  "j \<notin> g ` set ks \<Longrightarrow> fold (\<lambda>k acc. acc[g k := v k]) ks acc ! j = acc ! j"
  by (induction ks arbitrary: acc) auto

lemma fold_update_hit:
  assumes "inj_on g (set ks)" and "k \<in> set ks" and "g k < length acc"
  shows "fold (\<lambda>k acc. acc[g k := v k]) ks acc ! g k = v k"
  using assms
proof (induction ks arbitrary: acc)
  case Nil
  then show ?case by simp
next
  case (Cons x xs)
  show ?case
  proof (cases "k \<in> set xs")
    case True
    with Cons show ?thesis by simp
  next
    case False
    with Cons.prems have kx: "k = x" by simp
    from Cons.prems(1) False kx have "g k \<notin> g ` set xs" by auto
    then have "fold (\<lambda>k acc. acc[g k := v k]) xs (acc[g x := v x]) ! g k = acc[g x := v x] ! g k"
      by (rule fold_update_other)
    with Cons.prems(3) kx show ?thesis by simp
  qed
qed

lemma flat_index_lt:
  fixes h w c H W C :: nat
  assumes "h < H" and "w < W" and "c < C"
  shows "h * W * C + w * C + c < C * H * W"
proof -
  have "h * W + w < H * W"
  proof -
    have "h * W + w < h * W + W" using assms(2) by simp
    also have "\<dots> = Suc h * W" by simp
    also have "\<dots> \<le> H * W" using assms(1) by (intro mult_le_mono1) simp
    finally show ?thesis .
  qed
  then have "Suc (h * W + w) * C \<le> H * W * C"
    by (intro mult_le_mono1) simp
  moreover have "h * W * C + w * C + c < Suc (h * W + w) * C"
    using assms(3) by (simp add: algebra_simps)
  ultimately show ?thesis by (simp add: algebra_simps)
qed

lemma hwc_index_eqD:
  fixes h w c h' w' c' H W C :: nat
  assumes b: "w < W" "c < C" "w' < W" "c' < C"
    and e: "h * W * C + w * C + c = h' * W * C + w' * C + c'"
  shows "h = h' \<and> w = w' \<and> c = c'"
proof -
  have e': "(h * W + w) * C + c = (h' * W + w') * C + c'"
    using e by (simp add: algebra_simps)
  from b have "((h * W + w) * C + c) div C = h * W + w" "((h * W + w) * C + c) mod C = c"
              "((h' * W + w') * C + c') div C = h' * W + w'" "((h' * W + w') * C + c') mod C = c'"
    by simp_all
  with e' have 1: "h * W + w = h' * W + w'" and 2: "c = c'" by metis+
  from b have "(h * W + w) div W = h" "(h * W + w) mod W = w"
     "(h' * W + w') div W = h'" "(h' * W + w') mod W = w'" by simp_all
  with 1 have "h = h'" "w = w'" by metis+
  with 2 show ?thesis by simp
qed

lemma hwc_index_inj:
  "inj_on (\<lambda>(h, w, c). h * W * C + w * C + c) (UNIV \<times> {..<W} \<times> {..<C::nat})"
proof (rule inj_onI)
  fix p q :: "nat \<times> nat \<times> nat"
  assume p: "p \<in> UNIV \<times> {..<W} \<times> {..<C}" and q: "q \<in> UNIV \<times> {..<W} \<times> {..<C}"
    and e: "(case p of (h, w, c) \<Rightarrow> h * W * C + w * C + c) = (case q of (h, w, c) \<Rightarrow> h * W * C + w * C + c)"
  obtain h w c where pd: "p = (h, w, c)" by (cases p) auto
  obtain h' w' c' where qd: "q = (h', w', c')" by (cases q) auto
  from p q have "w < W" "c < C" "w' < W" "c' < C" by (simp_all add: pd qd)
  moreover from e have "h * W * C + w * C + c = h' * W * C + w' * C + c'" by (simp add: pd qd)
  ultimately have "h = h' \<and> w = w' \<and> c = c'" by (rule hwc_index_eqD)
  then show "p = q" by (simp add: pd qd)
qed



lemma chw_index_inj:
  "inj_on (\<lambda>(h, w, c). c * (H * W) + h * W + w) ({..<H} \<times> {..<W} \<times> (UNIV :: nat set))"
proof (rule inj_onI)
  fix p q :: "nat \<times> nat \<times> nat"
  assume p: "p \<in> {..<H} \<times> {..<W} \<times> UNIV" and q: "q \<in> {..<H} \<times> {..<W} \<times> UNIV"
    and e: "(case p of (h, w, c) \<Rightarrow> c * (H * W) + h * W + w) = (case q of (h, w, c) \<Rightarrow> c * (H * W) + h * W + w)"
  obtain h w c where pd: "p = (h, w, c)" by (cases p) auto
  obtain h' w' c' where qd: "q = (h', w', c')" by (cases q) auto
  from p q have "h < H" "w < W" "h' < H" "w' < W" by (simp_all add: pd qd)
  moreover from e have "c * H * W + h * W + w = c' * H * W + h' * W + w'"
    by (simp add: pd qd algebra_simps)
  ultimately have "c = c' \<and> h = h' \<and> w = w'" by (rule hwc_index_eqD)
  then show "p = q" by (simp add: pd qd)
qed

lemma chw_index_lt:
  fixes h w c H W C :: nat
  assumes "h < H" and "w < W" and "c < C"
  shows "c * (H * W) + h * W + w < C * H * W"
  using flat_index_lt [of c C h H w W] assms by (simp add: algebra_simps)

lemma chwToHwc_fold:
  "chwToHwc x C H W =
     fold (\<lambda>k acc. acc[(case k of (h, w, c) \<Rightarrow> h * W * C + w * C + c)
                       := (case k of (h, w, c) \<Rightarrow> x ! (c * (H * W) + h * W + w))])
       (List.product [0..<H] (List.product [0..<W] [0..<C])) (replicate (length x) 0)"
  unfolding chwToHwc_def Let_def
  by (subst fold_product3 [symmetric]) simp

lemma hwcToChw_fold:
  "hwcToChw x C H W =
     fold (\<lambda>k acc. acc[(case k of (h, w, c) \<Rightarrow> c * (H * W) + h * W + w)
                       := (case k of (h, w, c) \<Rightarrow> x ! (h * W * C + w * C + c))])
       (List.product [0..<H] (List.product [0..<W] [0..<C])) (replicate (length x) 0)"
  unfolding hwcToChw_def Let_def
  by (subst fold_product3 [symmetric]) simp

lemma length_chwToHwc: "length (chwToHwc x C H W) = length x"
  by (simp add: chwToHwc_fold length_fold_update)

lemma length_hwcToChw: "length (hwcToChw x C H W) = length x"
  by (simp add: hwcToChw_fold length_fold_update)

lemma chwToHwc_nth:
  assumes "length x = C * H * W" and "c < C" and "h < H" and "w < W"
  shows "chwToHwc x C H W ! (h * W * C + w * C + c) = x ! (c * (H * W) + h * W + w)"
proof -
  let ?g = "\<lambda>k. case k of (h, w, c) \<Rightarrow> h * W * C + w * C + c"
  let ?v = "\<lambda>k. case k of (h, w, c) \<Rightarrow> x ! (c * (H * W) + h * W + w)"
  let ?ks = "List.product [0..<H] (List.product [0..<W] [0..<C])"
  have inj: "inj_on ?g (set ?ks)"
    by (rule inj_on_subset [OF hwc_index_inj]) auto
  have mem: "(h, w, c) \<in> set ?ks" using assms by simp
  have lt: "?g (h, w, c) < length (replicate (length x) (0::'a))"
    using flat_index_lt [of h H w W c C] assms by simp
  from fold_update_hit [OF inj mem lt, of ?v]
  show ?thesis by (simp add: chwToHwc_fold)
qed

lemma hwcToChw_nth:
  assumes "length x = C * H * W" and "c < C" and "h < H" and "w < W"
  shows "hwcToChw x C H W ! (c * (H * W) + h * W + w) = x ! (h * W * C + w * C + c)"
proof -
  let ?g = "\<lambda>k. case k of (h, w, c) \<Rightarrow> c * (H * W) + h * W + w"
  let ?v = "\<lambda>k. case k of (h, w, c) \<Rightarrow> x ! (h * W * C + w * C + c)"
  let ?ks = "List.product [0..<H] (List.product [0..<W] [0..<C])"
  have inj: "inj_on ?g (set ?ks)"
    by (rule inj_on_subset [OF chw_index_inj]) auto
  have mem: "(h, w, c) \<in> set ?ks" using assms by simp
  have lt: "?g (h, w, c) < length (replicate (length x) (0::'a))"
    using chw_index_lt [of h H w W c C] assms by simp
  from fold_update_hit [OF inj mem lt, of ?v]
  show ?thesis by (simp add: hwcToChw_fold)
qed

lemma hwc_index_bij:
  fixes C H W :: nat
  shows "bij_betw (\<lambda>(c, h, w). h * W * C + w * C + c) ({..<C} \<times> {..<H} \<times> {..<W}) {..<C * H * W}"
proof -
  let ?f = "\<lambda>(c, h, w). h * W * C + w * C + c"
  let ?A = "{..<C} \<times> {..<H} \<times> {..<W}"
  have inj: "inj_on ?f ?A"
  proof (rule inj_onI)
    fix p q :: "nat \<times> nat \<times> nat"
    assume p: "p \<in> ?A" and q: "q \<in> ?A" and e: "?f p = ?f q"
    obtain c h w where pd: "p = (c, h, w)" by (cases p) auto
    obtain c' h' w' where qd: "q = (c', h', w')" by (cases q) auto
    from p q have "w < W" "c < C" "w' < W" "c' < C" by (simp_all add: pd qd)
    moreover from e have "h * W * C + w * C + c = h' * W * C + w' * C + c'" by (simp add: pd qd)
    ultimately have "h = h' \<and> w = w' \<and> c = c'" by (rule hwc_index_eqD)
    then show "p = q" by (simp add: pd qd)
  qed
  have sub: "?f ` ?A \<subseteq> {..<C * H * W}"
    using flat_index_lt by auto
  have "card (?f ` ?A) = card ?A" using inj by (rule card_image)
  also have "\<dots> = card {..<C * H * W}" by (simp add: card_cartesian_product)
  finally have "?f ` ?A = {..<C * H * W}"
    using sub by (intro card_subset_eq) simp_all
  with inj show ?thesis by (simp add: bij_betw_def)
qed

lemma hwc_index_cover:
  fixes C H W :: nat
  assumes "j < C * H * W"
  obtains c h w where "c < C" "h < H" "w < W" "j = h * W * C + w * C + c"
proof -
  from assms have "j \<in> (\<lambda>(c, h, w). h * W * C + w * C + c) ` ({..<C} \<times> {..<H} \<times> {..<W})"
    using hwc_index_bij [of W C H] by (simp add: bij_betw_def)
  then show thesis using that by auto
qed

lemma chwToHwc_hwcToChw:
  assumes "length x = C * H * W"
  shows "chwToHwc (hwcToChw x C H W) C H W = x"
proof (rule nth_equalityI)
  show "length (chwToHwc (hwcToChw x C H W) C H W) = length x"
    by (simp add: length_chwToHwc length_hwcToChw)
next
  fix j assume "j < length (chwToHwc (hwcToChw x C H W) C H W)"
  then have "j < C * H * W" by (simp add: length_chwToHwc length_hwcToChw assms)
  then obtain c h w where b: "c < C" "h < H" "w < W" and j: "j = h * W * C + w * C + c"
    by (rule hwc_index_cover)
  have "chwToHwc (hwcToChw x C H W) C H W ! j = hwcToChw x C H W ! (c * (H * W) + h * W + w)"
    unfolding j using b by (intro chwToHwc_nth) (simp_all add: length_hwcToChw assms)
  also have "\<dots> = x ! j"
    unfolding j using assms b by (rule hwcToChw_nth)
  finally show "chwToHwc (hwcToChw x C H W) C H W ! j = x ! j" .
qed


lemma chw_index_cover:
  fixes C H W :: nat
  assumes "j < C * H * W"
  obtains c h w where "c < C" "h < H" "w < W" "j = c * (H * W) + h * W + w"
proof -
  from assms have "j < W * C * H" by (simp add: mult.commute mult.left_commute)
  then obtain w c h where "w < W" "c < C" "h < H" "j = c * H * W + h * W + w"
    by (rule hwc_index_cover [of j W C H])
  then show thesis using that [of c h w] by (simp add: mult.assoc)
qed

lemma hwcToChw_chwToHwc:
  assumes "length x = C * H * W"
  shows "hwcToChw (chwToHwc x C H W) C H W = x"
proof (rule nth_equalityI)
  show "length (hwcToChw (chwToHwc x C H W) C H W) = length x"
    by (simp add: length_chwToHwc length_hwcToChw)
next
  fix j assume "j < length (hwcToChw (chwToHwc x C H W) C H W)"
  then have "j < C * H * W" by (simp add: length_chwToHwc length_hwcToChw assms)
  then obtain c h w where b: "c < C" "h < H" "w < W" and j: "j = c * (H * W) + h * W + w"
    by (rule chw_index_cover)
  have "hwcToChw (chwToHwc x C H W) C H W ! j = chwToHwc x C H W ! (h * W * C + w * C + c)"
    unfolding j using b by (intro hwcToChw_nth) (simp_all add: length_chwToHwc assms)
  also have "\<dots> = x ! j"
    unfolding j using assms b by (rule chwToHwc_nth)
  finally show "hwcToChw (chwToHwc x C H W) C H W ! j = x ! j" .
qed

section \<open>Channel-first to channel-last\<close>

lemma chwToHwc_example:
  "chwToHwc [1, 2, 3, 4, 5, 6 :: int] 2 1 3 = [1, 4, 2, 5, 3, 6]
   \<and> hwcToChw [1, 2, 3, 4, 5, 6 :: int] 2 1 3 = [1, 3, 5, 2, 4, 6]
   \<and> chwToHwc [1, 3, 5, 2, 4, 6 :: int] 2 1 3 = [1, 2, 3, 4, 5, 6]"
  by code_simp

text \<open>
  C7.  For every \<open>C\<close>, \<open>H\<close>, \<open>W\<close> and every buffer of length \<open>C * H * W\<close>, \<open>chwToHwc\<close>
  keeps the length and puts the element at \<open>[C,H,W]\<close> index \<open>(c, h, w)\<close> (flat position
  \<open>c * (H * W) + h * W + w\<close>) at \<open>[H,W,C]\<close> index \<open>(h, w, c)\<close> (flat position
  \<open>h * W * C + w * C + c\<close>); this map of index positions is a bijection onto the positions
  of the buffer; and \<open>chwToHwc\<close> after the reverse transposition gives the buffer back
  (as does the reverse transposition after \<open>chwToHwc\<close>).
\<close>

theorem chwToHwc_transpose:
  fixes x :: "'a::zero list"
  assumes "length x = C * H * W"
  shows "length (chwToHwc x C H W) = C * H * W
       \<and> (\<forall>c<C. \<forall>h<H. \<forall>w<W.
             chwToHwc x C H W ! (h * W * C + w * C + c) = x ! (c * (H * W) + h * W + w))
       \<and> bij_betw (\<lambda>(c, h, w). h * W * C + w * C + c)
             ({..<C} \<times> {..<H} \<times> {..<W}) {..<C * H * W}
       \<and> chwToHwc (hwcToChw x C H W) C H W = x
       \<and> hwcToChw (chwToHwc x C H W) C H W = x"
proof -
  have "length (chwToHwc x C H W) = C * H * W"
    by (simp add: length_chwToHwc assms)
  moreover have "\<forall>c<C. \<forall>h<H. \<forall>w<W.
      chwToHwc x C H W ! (h * W * C + w * C + c) = x ! (c * (H * W) + h * W + w)"
    using assms by (simp add: chwToHwc_nth)
  moreover note hwc_index_bij [of W C H]
  moreover have "chwToHwc (hwcToChw x C H W) C H W = x"
    using assms by (rule chwToHwc_hwcToChw)
  moreover have "hwcToChw (chwToHwc x C H W) C H W = x"
    using assms by (rule hwcToChw_chwToHwc)
  ultimately show ?thesis by simp
qed

theorem chwToHwc_transpose_witness:
  "length [1, 2, 3, 4, 5, 6 :: int] = 2 * 1 * 3
   \<and> chwToHwc [1, 2, 3, 4, 5, 6 :: int] 2 1 3 = [1, 4, 2, 5, 3, 6]
   \<and> chwToHwc (hwcToChw [1, 2, 3, 4, 5, 6 :: int] 2 1 3) 2 1 3 = [1, 2, 3, 4, 5, 6]"
  using chwToHwc_transpose [of "[1, 2, 3, 4, 5, 6 :: int]" 2 1 3] chwToHwc_example
  by simp

section \<open>Pixels to tensor\<close>












section \<open>Bounding box of a mask\<close>

lemma fold_min_Min: "fold min xs (a::nat) = Min (insert a (set xs))"
  using Min.set_eq_fold [of a xs] by simp

lemma fold_max_Max: "fold max xs (a::nat) = Max (insert a (set xs))"
  using Max.set_eq_fold [of a xs] by simp

lemma scan_fold:
  "fold (\<lambda>(y, x) (minX, minY, maxX, maxY).
           if hit y x then (min minX x, min minY y, max maxX x, max maxY y)
           else (minX, minY, maxX, maxY)) ps (a, b, c, d)
   = (fold min (map snd (filter (\<lambda>(y, x). hit y x) ps)) (a::nat),
      fold min (map fst (filter (\<lambda>(y, x). hit y x) ps)) (b::nat),
      fold max (map snd (filter (\<lambda>(y, x). hit y x) ps)) (c::nat),
      fold max (map fst (filter (\<lambda>(y, x). hit y x) ps)) (d::nat))"
  by (induction ps arbitrary: a b c d) (auto simp: min.commute max.commute)

lemma findMaskBounds_scan:
  "findMaskBounds data W H thr =
    (let t = (case thr of None \<Rightarrow> 0 | Some t \<Rightarrow> t);
         hits = filter (\<lambda>(y, x). y * W + x < length data \<and> t < data ! (y * W + x))
                  (List.product [0..<H] [0..<W]);
         minX = Min (insert W (set (map snd hits)));
         minY = Min (insert H (set (map fst hits)));
         maxX = Max (insert 0 (set (map snd hits)));
         maxY = Max (insert 0 (set (map fst hits)))
     in if minX > maxX \<or> minY > maxY
         then \<lparr>box_x = 0, box_y = 0, box_width = 0, box_height = 0\<rparr>
         else \<lparr>box_x = minX, box_y = minY,
               box_width = maxX - minX + 1, box_height = maxY - minY + 1\<rparr>)"
proof -
  define t where "t = (case thr of None \<Rightarrow> 0 | Some t \<Rightarrow> t)"
  define hit where "hit = (\<lambda>y x. y * W + x < length data \<and> t < data ! (y * W + x))"
  have "fold (\<lambda>y. fold (\<lambda>x (minX, minY, maxX, maxY).
                    let idx = y * W + x
                    in if idx < length data \<and> data ! idx > t
                       then (min minX x, min minY y, max maxX x, max maxY y)
                       else (minX, minY, maxX, maxY))
                  [0..<W]) [0..<H] (W, H, 0, 0)
     = fold (\<lambda>(y, x) (minX, minY, maxX, maxY).
           if hit y x then (min minX x, min minY y, max maxX x, max maxY y)
           else (minX, minY, maxX, maxY)) (List.product [0..<H] [0..<W]) (W, H, 0, 0)"
    by (subst fold_product [symmetric]) (simp add: hit_def Let_def)
  also have "\<dots> = (let hits = filter (\<lambda>(y, x). hit y x) (List.product [0..<H] [0..<W])
      in (Min (insert W (set (map snd hits))), Min (insert H (set (map fst hits))),
          Max (insert 0 (set (map snd hits))), Max (insert 0 (set (map fst hits)))))"
    by (simp only: scan_fold fold_min_Min fold_max_Max Let_def)
  finally show ?thesis
    unfolding findMaskBounds_def t_def [symmetric]
    by (simp only: Let_def prod.case hit_def)
qed


lemma Min_insert_bound:
  fixes X :: "nat set"
  assumes "finite X" "X \<noteq> {}" "\<forall>x\<in>X. x < b"
  shows "Min (insert b X) = Min X"
proof -
  have "Min X \<in> X" using assms by simp
  then have "Min X < b" using assms(3) by blast
  moreover have "Min (insert b X) = min b (Min X)"
    using assms(1,2) by (rule Min_insert)
  ultimately show ?thesis by (simp only: min_def) simp
qed

lemma Max_insert_zero:
  fixes X :: "nat set"
  assumes "finite X" "X \<noteq> {}"
  shows "Max (insert 0 X) = Max X"
proof -
  have "Max (insert 0 X) = max 0 (Max X)"
    using assms by (rule Max_insert)
  then show ?thesis by (simp only: max_0L)
qed

text \<open>
  What \<open>findMaskBounds\<close> returns, for every buffer, size and threshold: with \<open>S\<close> the set of
  positions \<open>(x, y)\<close> inside the \<open>W\<close> by \<open>H\<close> field whose value strictly exceeds the
  threshold, the bounding box of \<open>S\<close> when \<open>S\<close> is not empty, and the zero box when \<open>S\<close>
  is empty and the field has a column or a row.  For the field with \<open>W = 0\<close> and \<open>H = 0\<close>
  the result is the box of width and height 1.
\<close>

lemma findMaskBounds_char:
  fixes data :: "'a::{ord,zero} list"
  shows "findMaskBounds data W H thr =
     (let t = (case thr of None \<Rightarrow> 0 | Some t \<Rightarrow> t);
          S = {(x, y). x < W \<and> y < H \<and> y * W + x < length data \<and> t < data ! (y * W + x)}
      in if S = {}
         then (if W = 0 \<and> H = 0
               then \<lparr>box_x = 0, box_y = 0, box_width = 1, box_height = 1\<rparr>
               else \<lparr>box_x = 0, box_y = 0, box_width = 0, box_height = 0\<rparr>)
         else \<lparr>box_x = Min (fst ` S), box_y = Min (snd ` S),
               box_width = Max (fst ` S) - Min (fst ` S) + 1,
               box_height = Max (snd ` S) - Min (snd ` S) + 1\<rparr>)"
proof -
  define t where "t = (case thr of None \<Rightarrow> 0 | Some t \<Rightarrow> t)"
  define S where "S = {(x, y). x < W \<and> y < H \<and> y * W + x < length data \<and> t < data ! (y * W + x)}"
  define hits where "hits = filter (\<lambda>(y, x). y * W + x < length data \<and> t < data ! (y * W + x))
                  (List.product [0..<H] [0..<W])"
  have X: "set (map snd hits) = fst ` S" and Y: "set (map fst hits) = snd ` S"
    by (force simp: hits_def S_def image_iff)+
  have fin: "finite (fst ` S)" "finite (snd ` S)"
    using X Y by (metis List.finite_set)+
  have bx: "\<forall>x\<in>fst ` S. x < W" and bnd_y: "\<forall>y\<in>snd ` S. y < H"
    by (auto simp: S_def)
  have scan: "findMaskBounds data W H thr =
     (if Min (insert W (fst ` S)) > Max (insert 0 (fst ` S))
         \<or> Min (insert H (snd ` S)) > Max (insert 0 (snd ` S))
      then \<lparr>box_x = 0, box_y = 0, box_width = 0, box_height = 0\<rparr>
      else \<lparr>box_x = Min (insert W (fst ` S)), box_y = Min (insert H (snd ` S)),
            box_width = Max (insert 0 (fst ` S)) - Min (insert W (fst ` S)) + 1,
            box_height = Max (insert 0 (snd ` S)) - Min (insert H (snd ` S)) + 1\<rparr>)"
    unfolding findMaskBounds_scan t_def [symmetric]
    by (simp only: Let_def hits_def [symmetric] X Y)
  show ?thesis
  proof (cases "S = {}")
    case True
    then show ?thesis
      unfolding t_def [symmetric] S_def [symmetric] Let_def scan by auto
  next
    case False
    then have ne: "fst ` S \<noteq> {}" "snd ` S \<noteq> {}" by simp_all
    have m: "Min (insert W (fst ` S)) = Min (fst ` S)" "Min (insert H (snd ` S)) = Min (snd ` S)"
      "Max (insert 0 (fst ` S)) = Max (fst ` S)" "Max (insert 0 (snd ` S)) = Max (snd ` S)"
      using Min_insert_bound [OF fin(1) ne(1) bx] Min_insert_bound [OF fin(2) ne(2) bnd_y]
        Max_insert_zero [OF fin(1) ne(1)] Max_insert_zero [OF fin(2) ne(2)] by blast+
    have le: "Min (fst ` S) \<le> Max (fst ` S)" "Min (snd ` S) \<le> Max (snd ` S)"
      using fin ne by simp_all
    show ?thesis
      unfolding t_def [symmetric] S_def [symmetric] Let_def scan m
      using False le by (simp add: not_less)
  qed
qed

text \<open>A single positive pixel at \<open>(5, 7)\<close> in a 10 by 10 field.\<close>

lemma findMaskBounds_single_pixel:
  "findMaskBounds ((replicate 100 0)[7 * 10 + 5 := 1 :: real]) 10 10 None
     = \<lparr>box_x = 5, box_y = 7, box_width = 1, box_height = 1\<rparr>"
  by code_simp

text \<open>
  C5.  The specification has \<open>findMaskBounds\<close> return the zero box whenever no element
  exceeds the threshold, and the inclusive bounding box otherwise.  This holds for every
  field with \<open>0 < W\<close> or \<open>0 < H\<close> (\<open>findMaskBounds_char\<close>).  For the empty buffer with
  \<open>W = 0\<close> and \<open>H = 0\<close> no element exceeds the threshold, the loops leave
  \<open>minX = maxX = 0\<close> and \<open>minY = maxY = 0\<close>, the test \<open>minX > maxX || minY > maxY\<close>
  for the empty mask is false, and the function returns a box of width 1 and height 1.
\<close>

theorem findMaskBounds_zero_size:
  "findMaskBounds ([] :: real list) 0 0 None
     = \<lparr>box_x = 0, box_y = 0, box_width = 1, box_height = 1\<rparr>"
  by (simp add: findMaskBounds_def)

section \<open>Letterbox placement\<close>






section \<open>Model registry\<close>

lemma MODEL_CONFIGS_keys: "map fst MODEL_CONFIGS = [''mobilesam'', ''sam2_tiny'', ''sam2'']"
  by (simp add: MODEL_CONFIGS_def)

text \<open>
  The three registered ids give their descriptors; the alias \<open>sam2\<close> gives the descriptor
  of \<open>sam2_tiny\<close> itself, whose \<open>id\<close> field is the canonical id.
\<close>

lemma getModelConfig_registered:
  "getModelConfig ''mobilesam'' = Inr (Own MOBILESAM_CONFIG)
   \<and> getModelConfig ''sam2_tiny'' = Inr (Own SAM2_TINY_CONFIG)
   \<and> getModelConfig ''sam2'' = Inr (Own SAM2_TINY_CONFIG)
   \<and> cfg_id MOBILESAM_CONFIG = ''mobilesam''
   \<and> cfg_id SAM2_TINY_CONFIG = ''sam2_tiny''"
  by (simp add: getModelConfig_def get_property_def MODEL_CONFIGS_def Let_def
        MOBILESAM_CONFIG_def SAM2_TINY_CONFIG_def)

lemma getModelConfig_key:
  assumes "modelId \<in> set (map fst MODEL_CONFIGS)"
  shows "\<exists>c. getModelConfig modelId = Inr (Own c)
           \<and> (cfg_id c = modelId \<or> (modelId = ''sam2'' \<and> cfg_id c = ''sam2_tiny''))
           \<and> getModelConfig (cfg_id c) = Inr (Own c)"
  using assms getModelConfig_registered by (auto simp: MODEL_CONFIGS_keys)

text \<open>
  An id that is neither registered nor the name of a property of \<open>Object.prototype\<close> makes
  \<open>getModelConfig\<close> throw the error that lists the valid ids.
\<close>

lemma getModelConfig_unknown:
  assumes "modelId \<notin> set (map fst MODEL_CONFIGS)" and "modelId \<notin> set object_prototype_keys"
  shows "getModelConfig modelId
           = Inl (Error (''Unknown model: '' @ modelId
                          @ ''. Available models: mobilesam, sam2_tiny, sam2''))"
proof -
  from assms(1) have "map_of MODEL_CONFIGS modelId = None"
    by (simp add: map_of_eq_None_iff)
  with assms(2) show ?thesis
    by (simp add: getModelConfig_def get_property_def Let_def MODEL_CONFIGS_keys)
qed

text \<open>
  C2.  The specification has every registered id give its canonical descriptor and every
  other id make \<open>getModelConfig\<close> throw.  The first part holds
  (\<open>getModelConfig_registered\<close>, \<open>getModelConfig_key\<close>).  For the second part the id
  \<open>constructor\<close> is outside the key set, yet \<open>MODEL_CONFIGS['constructor']\<close> is the
  inherited \<open>Object\<close> function, which is truthy: the test \<open>!config\<close> fails and the function
  returns that value instead of throwing.  The same holds for each name in
  \<open>object_prototype_keys\<close>; every other unregistered id throws
  (\<open>getModelConfig_unknown\<close>).
\<close>

theorem getModelConfig_constructor:
  "''constructor'' \<notin> set (map fst MODEL_CONFIGS)
   \<and> getModelConfig ''constructor'' = Inr (Inherited ''constructor'')"
  by (simp add: getModelConfig_def get_property_def Let_def MODEL_CONFIGS_def
        object_prototype_keys_def)

section \<open>Preprocessing before encoding\<close>










section \<open>Best-mask selection\<close>










section \<open>Download with cache\<close>

lemma downloadModel_hit:
  assumes "getDirectory_ok env" and "opfs_files env (url_filename url) = Some b" and "b \<noteq> []"
    and "read_ok env (url_filename url)"
  shows "downloadModel env url = \<lparr>dl_buffer = Some b, dl_fetched = [], dl_files = opfs_files env\<rparr>"
  using assms by (simp add: downloadModel_def cache_lookup_def Let_def)

lemma cache_lookup_miss:
  assumes "\<not> (getDirectory_ok env \<and> read_ok env filename
              \<and> (\<exists>b. opfs_files env filename = Some b \<and> b \<noteq> []))"
  shows "\<forall>b. cache_lookup env filename \<noteq> Inr (Some b)"
  using assms by (auto simp: cache_lookup_def split: option.splits)

lemma downloadModel_miss:
  assumes "\<not> (getDirectory_ok env \<and> read_ok env (url_filename url)
              \<and> (\<exists>b. opfs_files env (url_filename url) = Some b \<and> b \<noteq> []))"
  shows "downloadModel env url =
           (case fetch_buffer env url of
                Inl e \<Rightarrow> \<lparr>dl_buffer = None, dl_fetched = [url], dl_files = opfs_files env\<rparr>
              | Inr buffer \<Rightarrow>
                  \<lparr>dl_buffer = Some buffer, dl_fetched = [url],
                   dl_files = snd (cache_store env (url_filename url) buffer)\<rparr>)"
  using cache_lookup_miss [OF assms]
  by (auto simp: downloadModel_def Let_def split: sum.splits option.splits)

text \<open>
  C9.  When the file system is reachable and holds, under the file name derived from the
  URL, a non-empty file that can be read, \<open>downloadModel\<close> returns its bytes and fetches
  nothing.  In every other case it fetches the URL once; it returns \<open>null\<close> (and does not
  throw) when the fetch rejects, when the status is not OK and when the body cannot be
  read; and when the fetch succeeds it returns the downloaded bytes whether or not writing
  them to the cache fails, the file holding them afterwards when the write succeeds.
\<close>

theorem downloadModel_cache_then_network:
  "(getDirectory_ok env \<and> opfs_files env (url_filename url) = Some b \<and> b \<noteq> []
      \<and> read_ok env (url_filename url)
     \<longrightarrow> dl_buffer (downloadModel env url) = Some b \<and> dl_fetched (downloadModel env url) = [])
   \<and> (\<not> (getDirectory_ok env \<and> read_ok env (url_filename url)
           \<and> (\<exists>c. opfs_files env (url_filename url) = Some c \<and> c \<noteq> []))
     \<longrightarrow> dl_fetched (downloadModel env url) = [url]
       \<and> (fetch_response env url = NetworkError \<longrightarrow> dl_buffer (downloadModel env url) = None)
       \<and> (fetch_response env url = Response False status body
            \<longrightarrow> dl_buffer (downloadModel env url) = None)
       \<and> (fetch_response env url = Response True status None
            \<longrightarrow> dl_buffer (downloadModel env url) = None)
       \<and> (fetch_response env url = Response True status (Some buffer)
            \<longrightarrow> dl_buffer (downloadModel env url) = Some buffer
              \<and> (fst (cache_store env (url_filename url) buffer) = Inl e
                   \<longrightarrow> dl_buffer (downloadModel env url) = Some buffer)
              \<and> (fst (cache_store env (url_filename url) buffer) = Inr ()
                   \<longrightarrow> dl_files (downloadModel env url) (url_filename url) = Some buffer)))"
proof (intro conjI impI)
  assume "getDirectory_ok env \<and> opfs_files env (url_filename url) = Some b \<and> b \<noteq> []
      \<and> read_ok env (url_filename url)"
  then have "downloadModel env url = \<lparr>dl_buffer = Some b, dl_fetched = [], dl_files = opfs_files env\<rparr>"
    by (intro downloadModel_hit) simp_all
  then show "dl_buffer (downloadModel env url) = Some b" "dl_fetched (downloadModel env url) = []"
    by simp_all
next
  assume miss: "\<not> (getDirectory_ok env \<and> read_ok env (url_filename url)
           \<and> (\<exists>c. opfs_files env (url_filename url) = Some c \<and> c \<noteq> []))"
  note dm = downloadModel_miss [OF miss]
  show "dl_fetched (downloadModel env url) = [url]"
    by (simp add: dm split: sum.split)
  show "dl_buffer (downloadModel env url) = None" if "fetch_response env url = NetworkError"
    using that by (simp add: dm fetch_buffer_def)
  show "dl_buffer (downloadModel env url) = None" if "fetch_response env url = Response False status body"
    using that by (simp add: dm fetch_buffer_def)
  show "dl_buffer (downloadModel env url) = None" if "fetch_response env url = Response True status None"
    using that by (simp add: dm fetch_buffer_def)
  show "dl_buffer (downloadModel env url) = Some buffer"
    if "fetch_response env url = Response True status (Some buffer)"
    using that by (simp add: dm fetch_buffer_def)
  show "dl_buffer (downloadModel env url) = Some buffer"
    if "fetch_response env url = Response True status (Some buffer)"
      and "fst (cache_store env (url_filename url) buffer) = Inl e"
    using that by (simp add: dm fetch_buffer_def)
  show "dl_files (downloadModel env url) (url_filename url) = Some buffer"
    if "fetch_response env url = Response True status (Some buffer)"
      and "fst (cache_store env (url_filename url) buffer) = Inr ()"
    using that by (auto simp: dm fetch_buffer_def cache_store_def split: if_splits write_outcome.splits)
qed


lemma downloadModel_example:
  "downloadModel \<lparr>getDirectory_ok = True, opfs_files = [''m.onnx'' \<mapsto> [1, 2]],
       read_ok = (\<lambda>f. True), fetch_response = (\<lambda>u. NetworkError),
       write_result = (\<lambda>f. WriteOk)\<rparr> ''https://h/m.onnx''
     = \<lparr>dl_buffer = Some [1, 2], dl_fetched = [], dl_files = [''m.onnx'' \<mapsto> [1, 2]]\<rparr>
   \<and> dl_buffer (downloadModel \<lparr>getDirectory_ok = True, opfs_files = Map.empty,
       read_ok = (\<lambda>f. True), fetch_response = (\<lambda>u. Response False 404 None),
       write_result = (\<lambda>f. WriteOk)\<rparr> ''https://h/m.onnx'') = None
   \<and> dl_fetched (downloadModel \<lparr>getDirectory_ok = True, opfs_files = Map.empty,
       read_ok = (\<lambda>f. True), fetch_response = (\<lambda>u. Response False 404 None),
       write_result = (\<lambda>f. WriteOk)\<rparr> ''https://h/m.onnx'') = [''https://h/m.onnx'']
   \<and> dl_buffer (downloadModel \<lparr>getDirectory_ok = True, opfs_files = Map.empty,
       read_ok = (\<lambda>f. True), fetch_response = (\<lambda>u. Response True 200 (Some [7])),
       write_result = (\<lambda>f. WriteFailsAfterCreate)\<rparr> ''https://h/m.onnx'') = Some [7]"
  by (simp add: downloadModel_def cache_lookup_def fetch_buffer_def cache_store_def
        url_filename_def Let_def)

theorem downloadModel_cache_then_network_witness:
  "downloadModel \<lparr>getDirectory_ok = True, opfs_files = [''m.onnx'' \<mapsto> [1, 2]],
       read_ok = (\<lambda>f. True), fetch_response = (\<lambda>u. NetworkError),
       write_result = (\<lambda>f. WriteOk)\<rparr> ''https://h/m.onnx''
     = \<lparr>dl_buffer = Some [1, 2], dl_fetched = [], dl_files = [''m.onnx'' \<mapsto> [1, 2]]\<rparr>
   \<and> dl_buffer (downloadModel \<lparr>getDirectory_ok = True, opfs_files = Map.empty,
       read_ok = (\<lambda>f. True), fetch_response = (\<lambda>u. Response False 404 None),
       write_result = (\<lambda>f. WriteOk)\<rparr> ''https://h/m.onnx'') = None
   \<and> dl_fetched (downloadModel \<lparr>getDirectory_ok = True, opfs_files = Map.empty,
       read_ok = (\<lambda>f. True), fetch_response = (\<lambda>u. Response False 404 None),
       write_result = (\<lambda>f. WriteOk)\<rparr> ''https://h/m.onnx'') = [''https://h/m.onnx'']
   \<and> dl_buffer (downloadModel \<lparr>getDirectory_ok = True, opfs_files = Map.empty,
       read_ok = (\<lambda>f. True), fetch_response = (\<lambda>u. Response True 200 (Some [7])),
       write_result = (\<lambda>f. WriteFailsAfterCreate)\<rparr> ''https://h/m.onnx'') = Some [7]"
  using downloadModel_cache_then_network
      [where env = "\<lparr>getDirectory_ok = True, opfs_files = [''m.onnx'' \<mapsto> [1, 2]],
         read_ok = (\<lambda>f. True), fetch_response = (\<lambda>u. NetworkError),
         write_result = (\<lambda>f. WriteOk)\<rparr>" and url = "''https://h/m.onnx''" and b = "[1, 2]"]
    downloadModel_cache_then_network
      [where env = "\<lparr>getDirectory_ok = True, opfs_files = Map.empty,
         read_ok = (\<lambda>f. True), fetch_response = (\<lambda>u. Response False 404 None),
         write_result = (\<lambda>f. WriteOk)\<rparr>" and url = "''https://h/m.onnx''"
         and status = 404 and body = None]
    downloadModel_cache_then_network
      [where env = "\<lparr>getDirectory_ok = True, opfs_files = Map.empty,
         read_ok = (\<lambda>f. True), fetch_response = (\<lambda>u. Response True 200 (Some [7])),
         write_result = (\<lambda>f. WriteFailsAfterCreate)\<rparr>" and url = "''https://h/m.onnx''"
         and status = 200 and buffer = "[7]" and e = "DOMException ''QuotaExceededError''"]
    downloadModel_example
  by blast

section \<open>Decode before encode, segment before setImage\<close>

lemma getEncoderSession_frame:
  assumes "getEncoderSession be this = (r, this')"
  shows "imageEncoded this' = imageEncoded this"
    and "DecoderRun i \<in> set (backend_calls this') \<longleftrightarrow> DecoderRun i \<in> set (backend_calls this)"
  using assms
  by (auto simp: getEncoderSession_def split: option.splits sum.splits)

lemma getDecoderSession_frame:
  assumes "getDecoderSession be this = (r, this')"
  shows "imageEncoded this' = imageEncoded this"
    and "DecoderRun i \<in> set (backend_calls this') \<longleftrightarrow> DecoderRun i \<in> set (backend_calls this)"
  using assms
  by (auto simp: getDecoderSession_def split: option.splits sum.splits)

lemma downloadModels_frame:
  "imageEncoded (fst (downloadModels env this)) = imageEncoded this"
  "backend_calls (fst (downloadModels env this)) = backend_calls this"
  by (simp_all add: downloadModels_def Let_def)

lemma createSessions_frame:
  assumes "createSessions be this = (r, this')"
  shows "imageEncoded this' = imageEncoded this"
    and "DecoderRun i \<in> set (backend_calls this') \<longleftrightarrow> DecoderRun i \<in> set (backend_calls this)"
proof -
  obtain r1 s1 where e: "getEncoderSession be this = (r1, s1)" by (cases "getEncoderSession be this")
  obtain r2 s2 where d: "getDecoderSession be s1 = (r2, s2)" by (cases "getDecoderSession be s1")
  from assms have "this' = s1 \<or> this' = s2"
    by (auto simp: createSessions_def e d split: sum.splits option.splits)
  then show "imageEncoded this' = imageEncoded this"
    and "DecoderRun i \<in> set (backend_calls this') \<longleftrightarrow> DecoderRun i \<in> set (backend_calls this)"
    using getEncoderSession_frame [OF e] getDecoderSession_frame [OF d] by auto
qed

lemma encodeImage_failed_frame:
  assumes "encodeImage be t this = (Inl e, this')"
  shows "imageEncoded this' = imageEncoded this"
    and "DecoderRun i \<in> set (backend_calls this') \<longleftrightarrow> DecoderRun i \<in> set (backend_calls this)"
proof -
  obtain r1 s1 where g: "getEncoderSession be this = (r1, s1)" by (cases "getEncoderSession be this")
  from assms have "imageEncoded this' = imageEncoded s1
      \<and> (DecoderRun i \<in> set (backend_calls this') \<longleftrightarrow> DecoderRun i \<in> set (backend_calls s1))"
    by (auto simp: encodeImage_def g Let_def split: sum.splits option.splits ModelType.splits)
  then show "imageEncoded this' = imageEncoded this"
    and "DecoderRun i \<in> set (backend_calls this') \<longleftrightarrow> DecoderRun i \<in> set (backend_calls this)"
    using getEncoderSession_frame [OF g] by auto
qed

lemma decode_not_encoded:
  assumes "imageEncoded this = None"
  shows "decode be points masks this
           = (Inl (Error ''[SAM] Image not encoded. Call encodeImage first.''), this)"
  using assms by (simp add: decode_def)

lemma sam2_step_not_encoded:
  assumes "imageEncoded this = None" and "\<forall>i. DecoderRun i \<notin> set (backend_calls this)"
    and "sam2_step c this = (r, this')" and "\<not> successful_encodeImage (c, r)"
  shows "imageEncoded this' = None \<and> (\<forall>i. DecoderRun i \<notin> set (backend_calls this'))"
proof (cases c)
  case (DownloadModels env)
  with assms show ?thesis by (auto simp: downloadModels_frame)
next
  case (CreateSessions be)
  obtain r1 s1 where cs: "createSessions be this = (r1, s1)" by (cases "createSessions be this")
  with assms(3) CreateSessions have "this' = s1" by (auto split: sum.splits)
  with createSessions_frame [OF cs] assms(1,2) show ?thesis by simp
next
  case (EncodeImage be t)
  obtain r1 s1 where en: "encodeImage be t this = (r1, s1)" by (cases "encodeImage be t this")
  with assms(3,4) EncodeImage obtain e where "r1 = Inl e" "this' = s1"
    by (cases r1) auto
  with encodeImage_failed_frame [of be t this e s1] en assms(1,2) show ?thesis by simp
next
  case (Decode be points masks)
  with assms(1,3) decode_not_encoded [OF assms(1)] have "this' = this" by auto
  with assms(1,2) show ?thesis by simp
next
  case Dispose
  with assms show ?thesis by (auto simp: dispose_def)
qed

lemma sam2_run_not_encoded:
  assumes "imageEncoded this = None" and "\<forall>i. DecoderRun i \<notin> set (backend_calls this)"
    and "sam2_run cs this = (history, this')"
    and "\<forall>h\<in>set history. \<not> successful_encodeImage h"
  shows "imageEncoded this' = None \<and> (\<forall>i. DecoderRun i \<notin> set (backend_calls this'))"
  using assms
proof (induction cs arbitrary: this history this')
  case Nil
  then show ?case by simp
next
  case (Cons c cs)
  obtain r s1 where st: "sam2_step c this = (r, s1)" by (cases "sam2_step c this")
  obtain rs s2 where rn: "sam2_run cs s1 = (rs, s2)" by (cases "sam2_run cs s1")
  from Cons.prems(3) have h: "history = (c, r) # rs" and s2: "this' = s2"
    by (simp_all add: st rn)
  from Cons.prems(4) h have nc: "\<not> successful_encodeImage (c, r)"
    and nrs: "\<forall>h\<in>set rs. \<not> successful_encodeImage h" by simp_all
  from sam2_step_not_encoded [OF Cons.prems(1,2) st nc]
  have "imageEncoded s1 = None" "\<forall>i. DecoderRun i \<notin> set (backend_calls s1)" by simp_all
  from Cons.IH [OF this rn nrs] s2 show ?case by simp
qed

lemma initialize_frame:
  assumes "initialize wc reply url this = (r, this')"
  shows "imageCanvas this' = imageCanvas this"
  using assms
  by (auto simp: initialize_def Let_def split: option.splits if_splits sum.splits prod.splits)

lemma setImage_early:
  assumes "\<not> setImage_stores (this, SetImage env img, r)"
  shows "snd (setImage env img this) = this"
  using assms
  by (auto simp: setImage_def split: sum.splits)

lemma segment_frame:
  "imageCanvas (snd (segment env options this)) = imageCanvas this"
  by (simp add: segment_def split: sum.split prod.split)

lemma segment_image_not_set:
  assumes "\<not> isReady this \<or> imageCanvas this = None"
  shows "segment env options this
           = (Inl (Error ''Image not set. Call setImage() first.''), this)"
  using assms by (auto simp: segment_def)

lemma client_step_no_canvas:
  assumes "imageCanvas this = None" and "client_step c this = (r, this')"
    and "\<not> setImage_stores (this, c, r)"
  shows "imageCanvas this' = None"
proof (cases c)
  case (Initialize wc reply url)
  obtain r1 s1 where i: "initialize wc reply url this = (r1, s1)"
    by (cases "initialize wc reply url this")
  with assms(2) Initialize have "this' = s1" by (auto split: sum.splits)
  with initialize_frame [OF i] assms(1) show ?thesis by simp
next
  case (SetImage env img)
  with assms(3) have "snd (setImage env img this) = this"
    by (intro setImage_early [of this env img r]) simp
  with assms(2) SetImage have "this' = this"
    by (cases "setImage env img this") (auto split: sum.splits)
  with assms(1) show ?thesis by simp
next
  case (Segment env options)
  with assms(2) have "this' = snd (segment env options this)"
    by (cases "segment env options this") (auto split: sum.splits)
  with segment_frame [of env options this] assms(1) show ?thesis by simp
next
  case DisposeClient
  with assms(2) show ?thesis by (auto simp: SAMClient_dispose_def)
qed

lemma client_run_no_canvas:
  assumes "imageCanvas this = None"
    and "\<forall>h\<in>set (fst (client_run cs this)). \<not> setImage_stores h"
  shows "imageCanvas (snd (client_run cs this)) = None"
  using assms
proof (induction cs arbitrary: this)
  case Nil
  then show ?case by simp
next
  case (Cons c cs)
  obtain r s1 where st: "client_step c this = (r, s1)" by (cases "client_step c this")
  obtain rs s2 where rn: "client_run cs s1 = (rs, s2)" by (cases "client_run cs s1")
  from Cons.prems(2) have nc: "\<not> setImage_stores (this, c, r)"
    and nrs: "\<forall>h\<in>set (fst (client_run cs s1)). \<not> setImage_stores h"
    by (simp_all add: st rn)
  from client_step_no_canvas [OF Cons.prems(1) st nc] have "imageCanvas s1 = None" .
  from Cons.IH [OF this nrs] show ?case by (simp add: st rn)
qed

text \<open>
  C8.  After every sequence of calls on a new \<open>SAM2\<close> object in which no
  \<open>encodeImage\<close> returned, \<open>decode\<close> throws the image-not-encoded error, leaves the object
  as it is, and no decoder session has been run.  After every sequence of calls on a new
  \<open>SAMClient\<close> in which no \<open>setImage\<close> got as far as storing the padded canvas (each was
  refused because the client was not ready, or threw while converting or padding the
  image), \<open>segment\<close> throws the image-not-set error and leaves the client as it is: nothing
  has been posted to the worker.
\<close>

theorem decode_and_segment_guards:
  "((\<forall>h\<in>set (fst (sam2_run calls (SAM2_new cfg))). \<not> successful_encodeImage h)
      \<longrightarrow> decode be points masks (snd (sam2_run calls (SAM2_new cfg)))
            = (Inl (Error ''[SAM] Image not encoded. Call encodeImage first.''),
               snd (sam2_run calls (SAM2_new cfg)))
        \<and> (\<forall>inputs. DecoderRun inputs \<notin> set (backend_calls (snd (sam2_run calls (SAM2_new cfg))))))
   \<and> ((\<forall>h\<in>set (fst (client_run ccalls (SAMClient_new ccfg))). \<not> setImage_stores h)
      \<longrightarrow> segment env options (snd (client_run ccalls (SAMClient_new ccfg)))
            = (Inl (Error ''Image not set. Call setImage() first.''),
               snd (client_run ccalls (SAMClient_new ccfg))))"
proof (intro conjI impI)
  assume h: "\<forall>h\<in>set (fst (sam2_run calls (SAM2_new cfg))). \<not> successful_encodeImage h"
  have "imageEncoded (snd (sam2_run calls (SAM2_new cfg))) = None
      \<and> (\<forall>i. DecoderRun i \<notin> set (backend_calls (snd (sam2_run calls (SAM2_new cfg)))))"
    by (rule sam2_run_not_encoded [of "SAM2_new cfg" calls "fst (sam2_run calls (SAM2_new cfg))"])
       (simp_all add: SAM2_new_def h)
  then show "decode be points masks (snd (sam2_run calls (SAM2_new cfg)))
            = (Inl (Error ''[SAM] Image not encoded. Call encodeImage first.''),
               snd (sam2_run calls (SAM2_new cfg)))"
    and "\<forall>inputs. DecoderRun inputs \<notin> set (backend_calls (snd (sam2_run calls (SAM2_new cfg))))"
    by (simp_all add: decode_not_encoded)
next
  assume h: "\<forall>h\<in>set (fst (client_run ccalls (SAMClient_new ccfg))). \<not> setImage_stores h"
  have "imageCanvas (snd (client_run ccalls (SAMClient_new ccfg))) = None"
    by (rule client_run_no_canvas) (simp_all add: SAMClient_new_def h)
  then show "segment env options (snd (client_run ccalls (SAMClient_new ccfg)))
            = (Inl (Error ''Image not set. Call setImage() first.''),
               snd (client_run ccalls (SAMClient_new ccfg)))"
    by (simp add: segment_image_not_set)
qed

theorem decode_and_segment_guards_witness:
  "list_all (\<lambda>h. \<not> successful_encodeImage h)
     (fst (sam2_run
        [DownloadModels offline_env, CreateSessions no_backend,
         EncodeImage no_backend \<lparr>ot_data = [0, 0, 0], ot_dims = [1, 3, 1, 1]\<rparr>,
         Decode no_backend [] None, Dispose]
        (SAM2_new stub_config)))
   \<and> decode no_backend [] None
        (snd (sam2_run
          [DownloadModels offline_env, CreateSessions no_backend,
         EncodeImage no_backend \<lparr>ot_data = [0, 0, 0], ot_dims = [1, 3, 1, 1]\<rparr>,
         Decode no_backend [] None, Dispose]
          (SAM2_new stub_config)))
       = (Inl (Error ''[SAM] Image not encoded. Call encodeImage first.''),
          snd (sam2_run
            [DownloadModels offline_env, CreateSessions no_backend,
         EncodeImage no_backend \<lparr>ot_data = [0, 0, 0], ot_dims = [1, 3, 1, 1]\<rparr>,
         Decode no_backend [] None, Dispose]
            (SAM2_new stub_config)))
   \<and> list_all (\<lambda>h. \<not> setImage_stores h)
     (fst (client_run
        [SetImage \<lparr>si_fresh_context2d = True, si_painted = [0, 0, 0, 255], si_reply = Reply ()\<rparr>
           (ImageDataInput 1 1 [9, 9, 9, 255]),
         Initialize True (Reply (True, Some ''cpu'')) (Some ''worker.js''),
         SetImage \<lparr>si_fresh_context2d = False, si_painted = [0, 0, 0, 255], si_reply = Reply ()\<rparr>
           (ImageDataInput 1 1 [9, 9, 9, 255])]
        (SAMClient_new stub_config)))
   \<and> segment
        \<lparr>sg_fresh_context2d = True, sg_scaled = [],
         sg_reply = ErrorReply ''[SAM] Image not encoded. Call encodeImage first.''\<rparr>
        \<lparr>so_points = Some [\<lparr>pt_x = 1 / 2, pt_y = 1 / 2, pt_label = 1\<rparr>],
         so_box = None, so_previousMask = None\<rparr>
        (snd (client_run
          [SetImage \<lparr>si_fresh_context2d = True, si_painted = [0, 0, 0, 255], si_reply = Reply ()\<rparr>
           (ImageDataInput 1 1 [9, 9, 9, 255]),
         Initialize True (Reply (True, Some ''cpu'')) (Some ''worker.js''),
         SetImage \<lparr>si_fresh_context2d = False, si_painted = [0, 0, 0, 255], si_reply = Reply ()\<rparr>
           (ImageDataInput 1 1 [9, 9, 9, 255])]
          (SAMClient_new stub_config)))
       = (Inl (Error ''Image not set. Call setImage() first.''),
          snd (client_run
            [SetImage \<lparr>si_fresh_context2d = True, si_painted = [0, 0, 0, 255], si_reply = Reply ()\<rparr>
           (ImageDataInput 1 1 [9, 9, 9, 255]),
         Initialize True (Reply (True, Some ''cpu'')) (Some ''worker.js''),
         SetImage \<lparr>si_fresh_context2d = False, si_painted = [0, 0, 0, 255], si_reply = Reply ()\<rparr>
           (ImageDataInput 1 1 [9, 9, 9, 255])]
            (SAMClient_new stub_config)))"
proof -
  let ?calls = "[DownloadModels offline_env, CreateSessions no_backend,
         EncodeImage no_backend \<lparr>ot_data = [0, 0, 0], ot_dims = [1, 3, 1, 1]\<rparr>,
         Decode no_backend [] None, Dispose]"
  let ?ccalls = "[SetImage \<lparr>si_fresh_context2d = True, si_painted = [0, 0, 0, 255], si_reply = Reply ()\<rparr>
           (ImageDataInput 1 1 [9, 9, 9, 255]),
         Initialize True (Reply (True, Some ''cpu'')) (Some ''worker.js''),
         SetImage \<lparr>si_fresh_context2d = False, si_painted = [0, 0, 0, 255], si_reply = Reply ()\<rparr>
           (ImageDataInput 1 1 [9, 9, 9, 255])]"
  have a: "list_all (\<lambda>h. \<not> successful_encodeImage h) (fst (sam2_run ?calls (SAM2_new stub_config)))"
    by code_simp
  have b: "list_all (\<lambda>h. \<not> setImage_stores h) (fst (client_run ?ccalls (SAMClient_new stub_config)))"
    by code_simp
  from a have a': "\<forall>h\<in>set (fst (sam2_run ?calls (SAM2_new stub_config))). \<not> successful_encodeImage h"
    by (simp only: list_all_iff)
  from b have b': "\<forall>h\<in>set (fst (client_run ?ccalls (SAMClient_new stub_config))). \<not> setImage_stores h"
    by (simp only: list_all_iff)
  from decode_and_segment_guards
    [where calls = ?calls and cfg = stub_config and be = no_backend and points = "[]"
       and masks = None and ccalls = ?ccalls and ccfg = stub_config
       and env = "\<lparr>sg_fresh_context2d = True, sg_scaled = [],
         sg_reply = ErrorReply ''[SAM] Image not encoded. Call encodeImage first.''\<rparr>"
       and options = "\<lparr>so_points = Some [\<lparr>pt_x = 1 / 2, pt_y = 1 / 2, pt_label = 1\<rparr>],
         so_box = None, so_previousMask = None\<rparr>"]
    a' b' a b
  show ?thesis by blast
qed

text \<open>
  C8, for a \<open>setImage\<close> that fails late.  The specification speaks of every client on
  which no \<open>setImage\<close> has succeeded.  Here the client is initialised and its one \<open>setImage\<close> call is rejected by the worker, so no
  \<open>setImage\<close> has succeeded; but the padded canvas was stored before the tensor was sent,
  \<open>segment\<close> passes its guard, posts the \<open>decodeMask\<close> request and fails with the worker's
  error instead.
\<close>

theorem segment_after_failed_setImage:
  "list_all (\<lambda>h. \<not> successful_setImage h)
     (fst (client_run
        [Initialize True (Reply (True, Some ''cpu'')) (Some ''worker.js''),
         SetImage \<lparr>si_fresh_context2d = True, si_painted = [0, 0, 0, 255],
                   si_reply = ErrorReply ''encode failed''\<rparr>
           (ImageDataInput 1 1 [9, 9, 9, 255])]
        (SAMClient_new stub_config)))
   \<and> fst (segment
        \<lparr>sg_fresh_context2d = True, sg_scaled = [],
         sg_reply = ErrorReply ''[SAM] Image not encoded. Call encodeImage first.''\<rparr>
        \<lparr>so_points = Some [\<lparr>pt_x = 1 / 2, pt_y = 1 / 2, pt_label = 1\<rparr>],
         so_box = None, so_previousMask = None\<rparr>
        (snd (client_run
          [Initialize True (Reply (True, Some ''cpu'')) (Some ''worker.js''),
         SetImage \<lparr>si_fresh_context2d = True, si_painted = [0, 0, 0, 255],
                   si_reply = ErrorReply ''encode failed''\<rparr>
           (ImageDataInput 1 1 [9, 9, 9, 255])]
          (SAMClient_new stub_config))))
       \<noteq> Inl (Error ''Image not set. Call setImage() first.'')
   \<and> posted (worker (snd (segment
        \<lparr>sg_fresh_context2d = True, sg_scaled = [],
         sg_reply = ErrorReply ''[SAM] Image not encoded. Call encodeImage first.''\<rparr>
        \<lparr>so_points = Some [\<lparr>pt_x = 1 / 2, pt_y = 1 / 2, pt_label = 1\<rparr>],
         so_box = None, so_previousMask = None\<rparr>
        (snd (client_run
          [Initialize True (Reply (True, Some ''cpu'')) (Some ''worker.js''),
         SetImage \<lparr>si_fresh_context2d = True, si_painted = [0, 0, 0, 255],
                   si_reply = ErrorReply ''encode failed''\<rparr>
           (ImageDataInput 1 1 [9, 9, 9, 255])]
          (SAMClient_new stub_config))))))
       = [PingRequest ''sam2_tiny'', EncodeImageRequest [0, 0, 0] [1, 3, 1, 1],
          DecodeMaskRequest [\<lparr>pt_x = 1 / 2, pt_y = 1 / 2, pt_label = 1\<rparr>] None None]"
  by code_simp
end
